theory Spec2Isabelle
  imports Complex_Main
begin

section \<open>Diagnostic helpers of the DoubleML tutorial notebooks\<close>

text \<open>
  The notebooks define three helpers of their own: \<^verbatim>\<open>pred_acc_irm\<close> (Python in
  \<^verbatim>\<open>py_elasticity_analysis_tools.ipynb\<close>, R in \<^verbatim>\<open>R_double_ml_abtest_workflow.Rmd\<close>),
  \<^verbatim>\<open>rep_propscore_plot\<close> (same two files) and \<^verbatim>\<open>pred_acc_plr\<close> (R, in
  \<^verbatim>\<open>R_elasticity_analysis.Rmd\<close>). Numbers are modelled as mathematical reals: the
  rounding of IEEE doubles and the values NaN and infinity are outside the model.
\<close>

subsection \<open>Errors\<close>

text \<open>
  \<open>ValueError\<close>, \<open>IndexError\<close>, \<open>AttributeError\<close> and \<open>TypeError\<close> are the Python
  exceptions, \<open>Stop\<close> is an R condition raised by \<^verbatim>\<open>stop(msg)\<close> or by a failing
  primitive, with its message.
\<close>

datatype error = ValueError string | IndexError | AttributeError | TypeError | Stop string

text \<open>A loop body run for each element in order; the first exception ends the loop.\<close>

fun mapM :: "('a \<Rightarrow> error + 'b) \<Rightarrow> 'a list \<Rightarrow> error + 'b list" where
  "mapM f [] = Inr []"
| "mapM f (x # xs) =
     (case f x of
        Inl e \<Rightarrow> Inl e
      | Inr v \<Rightarrow> (case mapM f xs of Inl e \<Rightarrow> Inl e | Inr vs \<Rightarrow> Inr (v # vs)))"

subsection \<open>Python: arrays and the fitted model object\<close>

text \<open>
  A stored prediction array of the DoubleML package: a three-dimensional numpy array of
  shape \<^verbatim>\<open>(n_obs, n_rep, n_treat)\<close>, indexed by observation, repetition and treatment
  variable: its shape and its entries. Entries outside the shape are never read by the
  model.
\<close>

record ndarray =
  shape0 :: nat
  shape1 :: nat
  shape2 :: nat
  elem :: "nat \<Rightarrow> nat \<Rightarrow> nat \<Rightarrow> real"

text \<open>
  The array of a model with one treatment variable, from its matrix of rows (one row per
  observation, one entry per repetition): \<^verbatim>\<open>np.array(rows)[:, :, np.newaxis]\<close>.
\<close>

definition of_rows :: "real list list \<Rightarrow> ndarray" where
  "of_rows rows =
     \<lparr>shape0 = length rows,
      shape1 = (case rows of [] \<Rightarrow> 0 | r # _ \<Rightarrow> length r),
      shape2 = 1,
      elem = (\<lambda>j i t. rows ! j ! i)\<rparr>"

text \<open>\<^verbatim>\<open>np.full((a, b, c), v)\<close>\<close>

definition full :: "nat \<Rightarrow> nat \<Rightarrow> nat \<Rightarrow> real \<Rightarrow> ndarray" where
  "full a b c v = \<lparr>shape0 = a, shape1 = b, shape2 = c, elem = (\<lambda>j i t. v)\<rparr>"

text \<open>
  What the helpers read from the fitted model: \<^verbatim>\<open>_dml_data.y\<close>, \<^verbatim>\<open>_dml_data.d\<close>,
  \<^verbatim>\<open>predictions\<close> and \<^verbatim>\<open>n_rep\<close>. \<^verbatim>\<open>predictions\<close> is \<^verbatim>\<open>None\<close> when the model was
  fitted without storing predictions, and a dictionary from learner names to arrays
  otherwise.
\<close>

record DoubleML =
  dml_y :: "real list"
  dml_d :: "real list"
  predictions :: "(string \<Rightarrow> ndarray option) option"
  n_rep :: nat

text \<open>
  \<^verbatim>\<open>predictions.get(key)\<close>: the stored array, or \<^verbatim>\<open>None\<close> for a key that is not in the
  dictionary; \<^verbatim>\<open>None\<close> itself has no attribute \<^verbatim>\<open>get\<close>.
\<close>

definition get :: "(string \<Rightarrow> ndarray option) option \<Rightarrow> string \<Rightarrow> error + ndarray option" where
  "get preds key = (case preds of None \<Rightarrow> Inl AttributeError | Some dict \<Rightarrow> Inr (dict key))"

text \<open>\<^verbatim>\<open>a.shape[0]\<close>: \<^verbatim>\<open>None\<close> has no attribute \<^verbatim>\<open>shape\<close>.\<close>

definition shape_0 :: "ndarray option \<Rightarrow> error + nat" where
  "shape_0 a = (case a of None \<Rightarrow> Inl AttributeError | Some x \<Rightarrow> Inr (shape0 x))"

text \<open>
  \<^verbatim>\<open>d[j]\<close>, \<^verbatim>\<open>a[j, i]\<close> and \<^verbatim>\<open>a[:, i]\<close> for indices from \<^verbatim>\<open>range\<close>: out of range raises,
  and \<^verbatim>\<open>None\<close> is not subscriptable. On a three-dimensional array \<^verbatim>\<open>a[j, i]\<close> is the
  one-dimensional array of the entries along the last axis, and \<^verbatim>\<open>a[:, i]\<close> the
  two-dimensional array with one such row per observation.
\<close>

definition getitem :: "real list \<Rightarrow> nat \<Rightarrow> error + real" where
  "getitem xs j = (if j < length xs then Inr (xs ! j) else Inl IndexError)"

definition getitem2 :: "ndarray option \<Rightarrow> nat \<Rightarrow> nat \<Rightarrow> error + real list" where
  "getitem2 a j i =
     (case a of
        None \<Rightarrow> Inl TypeError
      | Some x \<Rightarrow>
          if j < shape0 x \<and> i < shape1 x then Inr (map (elem x j i) [0..<shape2 x])
          else Inl IndexError)"

definition column :: "ndarray option \<Rightarrow> nat \<Rightarrow> error + real list list" where
  "column a i =
     (case a of
        None \<Rightarrow> Inl TypeError
      | Some x \<Rightarrow>
          if i < shape1 x
          then Inr (map (\<lambda>j. map (elem x j i) [0..<shape2 x]) [0..<shape0 x])
          else Inl IndexError)"

text \<open>
  \<^verbatim>\<open>b[j, i] = v\<close> for an array \<open>b\<close> of numbers and a one-dimensional array \<open>v\<close>: the
  number that is stored. An array with one entry is converted to that entry; any other
  length is refused.
\<close>

definition setitem_scalar :: "real list \<Rightarrow> error + real" where
  "setitem_scalar v =
     (case v of
        [x] \<Rightarrow> Inr x
      | _ \<Rightarrow> Inl (ValueError ''setting an array element with a sequence.''))"

text \<open>\<^verbatim>\<open>np.isin(d, [0,1]).all()\<close>\<close>

definition isin01_all :: "real list \<Rightarrow> bool" where
  "isin01_all ds = list_all (\<lambda>x. x = 0 \<or> x = 1) ds"

text \<open>
  \<^verbatim>\<open>np.reshape(c, h)\<close> of a two-dimensional array, given by its rows: the entries in row
  order; their number has to be \<open>h\<close>.
\<close>

definition np_reshape :: "real list list \<Rightarrow> nat \<Rightarrow> error + real list" where
  "np_reshape c h =
     (if length (concat c) = h then Inr (concat c)
      else Inl (ValueError ''cannot reshape array''))"

subsection \<open>Library metrics\<close>

text \<open>
  Modelled from the spec: \<^verbatim>\<open>sklearn.metrics.mean_squared_error(y, pred, squared=False)\<close>
  is a function of the scikit-learn library, not of the notebooks. The spec gives its value
  as \<^verbatim>\<open>sqrt(mean((y - blended_pred)^2))\<close>. That mean needs two vectors of the same positive
  length; any other input is reported as a \<open>ValueError\<close>, so that no value is invented
  for it.
\<close>

definition mean_squared_error :: "real list \<Rightarrow> real list \<Rightarrow> error + real" where
  "mean_squared_error y_true y_pred =
     (if length y_true \<noteq> length y_pred \<or> y_true = []
      then Inl (ValueError ''inconsistent or empty input'')
      else Inr (sqrt (sum_list (map2 (\<lambda>a b. (a - b)\<^sup>2) y_true y_pred)
                      / real (length y_true))))"

text \<open>\<^verbatim>\<open>np.clip(p, lo, hi)\<close>\<close>

definition clip :: "real \<Rightarrow> real \<Rightarrow> real \<Rightarrow> real" where
  "clip p lo hi = min hi (max lo p)"

text \<open>
  Modelled from the spec: \<^verbatim>\<open>sklearn.metrics.log_loss(d, p, eps=...)\<close> is a function of the
  scikit-learn library, not of the notebooks. The spec gives its value as
  \<^verbatim>\<open>-mean(d*log(p) + (1-d)*log(1-p))\<close> with the probabilities clamped away from 0 and 1
  by \<open>eps\<close>. As for the squared error, vectors of different or zero length are reported as
  a \<open>ValueError\<close>. Checks that the library makes on top of the formula (such as refusing
  a label vector with a single class) are not part of the model. The helper passes the
  predictions as a two-dimensional array, given here by its rows; the formula applies
  when each row holds the one probability \<open>p\<close> of its observation. Rows of another
  length (one probability per class) are outside the spec's formula: the model gives them
  no value and reports a \<open>ValueError\<close>, whatever the library computes for them.
\<close>

definition log_loss :: "real list \<Rightarrow> real list list \<Rightarrow> real \<Rightarrow> error + real" where
  "log_loss y_true y_pred eps =
     (if length y_true \<noteq> length y_pred \<or> y_true = []
         \<or> \<not> list_all (\<lambda>r. length r = 1) y_pred
      then Inl (ValueError ''inconsistent or empty input'')
      else Inr (- (sum_list (map2 (\<lambda>t p. t * ln (clip p eps (1 - eps))
                                       + (1 - t) * ln (1 - clip p eps (1 - eps)))
                                 y_true (concat y_pred))
                   / real (length y_true))))"

text \<open>
  Modelled from the spec: \<^verbatim>\<open>ax.hist(x, range=[lo,hi], bins=n, density=False)\<close> is a function
  of matplotlib, not of the notebooks. The spec describes it as partitioning the range into
  \<open>n\<close> equal-width buckets and counting the values that fall in each bucket, giving
  (lower bound, upper bound, count) triples; values outside the range are in no bucket.
  The buckets are half-open on the right, the last one closed, which makes them a
  partition of the range.
\<close>

definition edge :: "real \<Rightarrow> real \<Rightarrow> nat \<Rightarrow> nat \<Rightarrow> real" where
  "edge lo hi bins k = lo + (hi - lo) * real k / real bins"

definition in_bucket :: "real \<Rightarrow> real \<Rightarrow> nat \<Rightarrow> nat \<Rightarrow> real \<Rightarrow> bool" where
  "in_bucket lo hi bins k v =
     (edge lo hi bins k \<le> v \<and>
      (if Suc k = bins then v \<le> hi else v < edge lo hi bins (Suc k)))"

definition hist :: "real list \<Rightarrow> real \<Rightarrow> real \<Rightarrow> nat \<Rightarrow> (real \<times> real \<times> nat) list" where
  "hist x lo hi bins =
     map (\<lambda>k. (edge lo hi bins k, edge lo hi bins (Suc k),
               length (filter (in_bucket lo hi bins k) x))) [0..<bins]"

subsection \<open>Python: \<^verbatim>\<open>pred_acc_irm\<close>\<close>

text \<open>
  The body of the two nested loops that fill \<^verbatim>\<open>export_pred_array[j,i]\<close>: the control-arm
  prediction where \<^verbatim>\<open>d[j] == 0\<close>, the treated-arm prediction otherwise.
\<close>

definition pick_pred :: "real list \<Rightarrow> ndarray option \<Rightarrow> ndarray option \<Rightarrow> nat \<Rightarrow> nat
    \<Rightarrow> error + real" where
  "pick_pred ds g0 g1 i j =
     (case getitem ds j of
        Inl e \<Rightarrow> Inl e
      | Inr dj \<Rightarrow>
          (case (if dj = 0 then getitem2 g0 j i else getitem2 g1 j i) of
             Inl e \<Rightarrow> Inl e
           | Inr v \<Rightarrow> setitem_scalar v))"

text \<open>
  \<^verbatim>\<open>export_pred_array\<close> after the loops, as the list of its columns \<^verbatim>\<open>[:, i]\<close>: the outer
  loop runs over the \<open>w\<close> repetitions, the inner one over the \<open>h\<close> rows.
\<close>

definition export_pred_array :: "real list \<Rightarrow> ndarray option \<Rightarrow> ndarray option \<Rightarrow> nat \<Rightarrow> nat
    \<Rightarrow> error + real list list" where
  "export_pred_array ds g0 g1 h w = mapM (\<lambda>i. mapM (pick_pred ds g0 g1 i) [0..<h]) [0..<w]"

text \<open>
  The three \<^verbatim>\<open>predictions.get\<close> calls and \<^verbatim>\<open>h = g0.shape[0]\<close> come first, the check of the
  treatment values after them.
\<close>

definition pred_acc_irm :: "DoubleML \<Rightarrow> bool \<Rightarrow> error + real list" where
  "pred_acc_irm obj prop =
     (let y = dml_y obj; ds = dml_d obj
      in case get (predictions obj) ''ml_g0'' of
           Inl e \<Rightarrow> Inl e
         | Inr g0 \<Rightarrow>
      (case get (predictions obj) ''ml_g1'' of
           Inl e \<Rightarrow> Inl e
         | Inr g1 \<Rightarrow>
      (case get (predictions obj) ''ml_m'' of
           Inl e \<Rightarrow> Inl e
         | Inr m \<Rightarrow>
      (case shape_0 g0 of
           Inl e \<Rightarrow> Inl e
         | Inr h \<Rightarrow>
        let w = n_rep obj
        in if \<not> isin01_all ds then Inl (ValueError ''Treatment must be a binary variable.'')
           else if \<not> prop then
             (case export_pred_array ds g0 g1 h w of
                Inl e \<Rightarrow> Inl e
              | Inr cols \<Rightarrow> mapM (\<lambda>i. mean_squared_error y (cols ! i)) [0..<w])
           else
             mapM (\<lambda>i. case column m i of
                          Inl e \<Rightarrow> Inl e
                        | Inr p \<Rightarrow> log_loss ds p 0.025) [0..<w]))))"

subsection \<open>Python: \<^verbatim>\<open>rep_propscore_plot\<close>\<close>

text \<open>
  The function draws and returns nothing; the model returns what it draws: for each axes
  of the figure, the histograms drawn on it, in drawing order. With more than one
  repetition there is one axes per repetition; otherwise there is a single axes, on which
  column \<open>0\<close> is drawn by two identical \<^verbatim>\<open>ax.hist\<close> calls. Titles and labels are left out.
\<close>

definition hist_of_column :: "ndarray option \<Rightarrow> nat \<Rightarrow> nat \<Rightarrow> error + (real \<times> real \<times> nat) list" where
  "hist_of_column m h i =
     (case column m i of
        Inl e \<Rightarrow> Inl e
      | Inr c \<Rightarrow> (case np_reshape c h of
                   Inl e \<Rightarrow> Inl e
                 | Inr x \<Rightarrow> Inr (hist x 0 1 25)))"

definition rep_propscore_plot :: "DoubleML \<Rightarrow> error + (real \<times> real \<times> nat) list list list" where
  "rep_propscore_plot obj =
     (case get (predictions obj) ''ml_m'' of
        Inl e \<Rightarrow> Inl e
      | Inr m \<Rightarrow>
     (case shape_0 m of
        Inl e \<Rightarrow> Inl e
      | Inr h \<Rightarrow>
        let rep = n_rep obj
        in if 1 < rep then
             mapM (\<lambda>i. case hist_of_column m h i of
                          Inl e \<Rightarrow> Inl e
                        | Inr hg \<Rightarrow> Inr [hg]) [0..<rep]
           else
             (case hist_of_column m h 0 of
                Inl e \<Rightarrow> Inl e
              | Inr hg1 \<Rightarrow> (case hist_of_column m h 0 of
                             Inl e \<Rightarrow> Inl e
                           | Inr hg2 \<Rightarrow> Inr [[hg1, hg2]]))))"

subsection \<open>R: values\<close>

text \<open>
  An R numeric value is a plain vector or a matrix; a matrix has its extents and its
  entries in column-major order (\<open>length (mdata a) = nrow a * ncol a\<close>).
\<close>

record rmat =
  nrow :: nat
  ncol :: nat
  mdata :: "real list"

datatype rvalue = Vec "real list" | Mat rmat

fun rdata :: "rvalue \<Rightarrow> real list" where
  "rdata (Vec xs) = xs"
| "rdata (Mat a) = mdata a"

text \<open>Recycling a vector to length \<open>n\<close>, as R's arithmetic and \<^verbatim>\<open>matrix()\<close> do.\<close>

definition recycle :: "real list \<Rightarrow> nat \<Rightarrow> real list" where
  "recycle xs n = map (\<lambda>k. xs ! (k mod length xs)) [0..<n]"

text \<open>
  Elementwise arithmetic \<^verbatim>\<open>x op y\<close>. The result has length zero when an operand has,
  and the length of the longer operand otherwise, the shorter one recycled. Two matrices
  must have the same extents. A matrix and a vector give a matrix of the same extents,
  which fails when the vector is longer than the matrix; a matrix with a single entry
  counts as a vector against a vector of another length, and a zero-length vector against
  a non-empty matrix gives a zero-length vector. Warnings are not modelled.
\<close>

definition r_arith :: "(real \<Rightarrow> real \<Rightarrow> real) \<Rightarrow> rvalue \<Rightarrow> rvalue \<Rightarrow> error + rvalue" where
  "r_arith f x y =
     (let nx = length (rdata x); ny = length (rdata y);
          n = (if nx = 0 \<or> ny = 0 then 0 else max nx ny);
          val = map2 f (recycle (rdata x) n) (recycle (rdata y) n)
      in case (x, y) of
           (Mat a, Mat b) \<Rightarrow>
             if nrow a = nrow b \<and> ncol a = ncol b
             then Inr (Mat \<lparr>nrow = nrow a, ncol = ncol a, mdata = val\<rparr>)
             else Inl (Stop ''non-conformable arrays'')
         | (Mat a, Vec _) \<Rightarrow>
             if (nx = 1 \<and> ny \<noteq> 1) \<or> (ny = 0 \<and> nx \<noteq> 0) then Inr (Vec val)
             else if nrow a * ncol a = n
             then Inr (Mat \<lparr>nrow = nrow a, ncol = ncol a, mdata = val\<rparr>)
             else Inl (Stop ''dims do not match the length of object'')
         | (Vec _, Mat b) \<Rightarrow>
             if (ny = 1 \<and> nx \<noteq> 1) \<or> (nx = 0 \<and> ny \<noteq> 0) then Inr (Vec val)
             else if nrow b * ncol b = n
             then Inr (Mat \<lparr>nrow = nrow b, ncol = ncol b, mdata = val\<rparr>)
             else Inl (Stop ''dims do not match the length of object'')
         | (Vec _, Vec _) \<Rightarrow> Inr (Vec val))"

text \<open>
  \<^verbatim>\<open>matrix(x, ncol = nc)\<close>: the entries of \<open>x\<close> laid out in \<open>nc\<close> columns of
  \<open>ceiling (length x / nc)\<close> rows, recycled where they do not fill the matrix.
  \<open>None\<close> stands for \<^verbatim>\<open>NULL\<close>, which \<^verbatim>\<open>matrix\<close> refuses.
\<close>

definition r_matrix :: "real list option \<Rightarrow> nat \<Rightarrow> error + rmat" where
  "r_matrix x nc =
     (case x of
        None \<Rightarrow> Inl (Stop ''data must be of a vector type, was NULL'')
      | Some xs \<Rightarrow>
          if nc = 0 then
            (if xs \<noteq> [] then Inl (Stop ''nc = 0 for non-null data'')
             else Inr \<lparr>nrow = 0, ncol = 0, mdata = []\<rparr>)
          else let nr = (length xs + nc - 1) div nc
               in Inr \<lparr>nrow = nr, ncol = nc, mdata = recycle xs (nr * nc)\<rparr>)"

text \<open>\<^verbatim>\<open>a[, j]\<close> for the (0-based) column \<open>j\<close> of a matrix.\<close>

definition r_column :: "rmat \<Rightarrow> nat \<Rightarrow> real list" where
  "r_column a j = take (nrow a) (drop (j * nrow a) (mdata a))"

text \<open>
  \<^verbatim>\<open>apply(X, 2, FUN)\<close> for a function with one number as its value: \<open>FUN\<close> on each
  column in order. \<open>X\<close> must have extents; for a matrix without columns R calls
  \<open>FUN\<close> once on a column of zeros and gives an empty result.
\<close>

definition r_apply2 :: "(real list \<Rightarrow> error + real) \<Rightarrow> rvalue \<Rightarrow> error + real list" where
  "r_apply2 f x =
     (case x of
        Vec _ \<Rightarrow> Inl (Stop ''dim(X) must have a positive length'')
      | Mat a \<Rightarrow>
          if ncol a = 0 then
            (case f (replicate (nrow a) 0) of Inl e \<Rightarrow> Inl e | Inr _ \<Rightarrow> Inr [])
          else mapM (\<lambda>j. f (r_column a j)) [0..<ncol a])"

text \<open>\<^verbatim>\<open>1:n\<close>, which counts down from 1 to 0 when \<open>n = 0\<close>.\<close>

definition r_colon1 :: "nat \<Rightarrow> nat list" where
  "r_colon1 n = (if n = 0 then [1, 0] else [1..<Suc n])"

text \<open>
  Modelled from the spec: \<^verbatim>\<open>mlr3measures::rmse(truth, response)\<close> is a function of the
  mlr3measures package, not of the notebooks. The spec gives the accuracy of a regression
  as \<^verbatim>\<open>sqrt(mean((y - pred)^2))\<close>; inputs of different or zero length are reported as
  an error.
\<close>

definition rmse :: "real list \<Rightarrow> real list \<Rightarrow> error + real" where
  "rmse truth response =
     (if length truth \<noteq> length response \<or> truth = []
      then Inl (Stop ''Assertion on response failed'')
      else Inr (sqrt (sum_list (map2 (\<lambda>a b. (a - b)\<^sup>2) truth response)
                      / real (length truth))))"

text \<open>
  Modelled from the spec: \<^verbatim>\<open>mlr3measures::logloss(truth, prob)\<close> is a function of the
  mlr3measures package, not of the notebooks. \<open>prob\<close> has the column \<open>p0\<close> of class
  \<^verbatim>\<open>"0"\<close> and the column \<open>p1\<close> of class \<^verbatim>\<open>"1"\<close>. The spec gives the log-loss as
  \<^verbatim>\<open>-mean(d*log(p) + (1-d)*log(1-p))\<close>, with \<open>p\<close> the probability of class 1 and
  \<open>1-p\<close> that of class 0, each clamped by an epsilon. The notebook passes no epsilon,
  and the package's default is not in the repository: it is the parameter \<open>eps\<close>.
\<close>

definition logloss :: "real \<Rightarrow> real list \<Rightarrow> real list \<Rightarrow> real list \<Rightarrow> error + real" where
  "logloss eps truth p0 p1 =
     (if length truth \<noteq> length p1 \<or> length truth \<noteq> length p0 \<or> truth = []
      then Inl (Stop ''Assertion on prob failed'')
      else Inr (- (sum_list (map (\<lambda>(t, q0, q1). t * ln (clip q1 eps (1 - eps))
                                       + (1 - t) * ln (clip q0 eps (1 - eps)))
                                 (zip truth (zip p0 p1)))
                   / real (length truth))))"

subsection \<open>R: the fitted IRM object, \<^verbatim>\<open>pred_acc_irm\<close> and \<^verbatim>\<open>rep_propscore_plot\<close>\<close>

text \<open>
  What the helpers read from \<^verbatim>\<open>obj\<close>: \<^verbatim>\<open>obj$data$n_treat\<close>, \<^verbatim>\<open>obj$data$n_obs\<close>,
  \<^verbatim>\<open>obj$n_rep\<close>, the outcome and treatment columns of \<^verbatim>\<open>obj$data$data_model\<close>, and the
  slices \<^verbatim>\<open>obj$predictions[[k]][,,1]\<close> of the stored prediction arrays, which have the
  extents \<open>n_obs \<times> n_rep \<times> n_treat\<close>: each slice with the first two extents of its array
  and its entries in column-major order. A slice is \<open>None\<close> for \<^verbatim>\<open>NULL\<close>, which is what
  the expression gives when the model was fitted without storing predictions.
\<close>

record DoubleMLIRM_R =
  r_n_treat :: nat
  r_n_obs :: nat
  r_n_rep :: nat
  r_y :: "real list"
  r_d :: "real list"
  r_ml_g0 :: "rmat option"
  r_ml_g1 :: "rmat option"
  r_ml_m :: "rmat option"

definition msg_n_treat :: string where
  "msg_n_treat = ''Number of treatment variable is > 1. Helper function for nuisance accuracy is only implemented for 1 treatment variable.''"

text \<open>\<^verbatim>\<open>d*g1 + (1-d) * g0\<close>, its operands evaluated from left to right.\<close>

definition export_pred_R :: "real list \<Rightarrow> rmat \<Rightarrow> rmat \<Rightarrow> error + rvalue" where
  "export_pred_R ds g0 g1 =
     (case r_arith (*) (Vec ds) (Mat g1) of
        Inl e \<Rightarrow> Inl e
      | Inr a \<Rightarrow>
          (case r_arith (-) (Vec [1]) (Vec ds) of
             Inl e \<Rightarrow> Inl e
           | Inr b \<Rightarrow>
               (case r_arith (*) b (Mat g0) of
                  Inl e \<Rightarrow> Inl e
                | Inr c \<Rightarrow> r_arith (+) a c)))"

text \<open>
  \<open>eps\<close> is the default epsilon of the package's log-loss (see \<open>logloss\<close>). The check
  of \<^verbatim>\<open>n_treat\<close> comes first, then the three \<^verbatim>\<open>matrix\<close> calls, then the check of the
  treatment values.
\<close>

definition pred_acc_irm_R :: "real \<Rightarrow> DoubleMLIRM_R \<Rightarrow> bool \<Rightarrow> error + real list" where
  "pred_acc_irm_R eps obj prop =
     (if 1 < r_n_treat obj then Inl (Stop msg_n_treat)
      else
        let h = r_n_obs obj; w = r_n_rep obj; y = r_y obj; ds = r_d obj
        in case r_matrix (map_option mdata (r_ml_g0 obj)) w of
             Inl e \<Rightarrow> Inl e
           | Inr g0 \<Rightarrow>
        (case r_matrix (map_option mdata (r_ml_g1 obj)) w of
             Inl e \<Rightarrow> Inl e
           | Inr g1 \<Rightarrow>
        (case r_matrix (map_option mdata (r_ml_m obj)) w of
             Inl e \<Rightarrow> Inl e
           | Inr m \<Rightarrow>
        if \<not> list_all (\<lambda>x. x = 0 \<or> x = 1) (remdups ds)
        then Inl (Stop ''Treatment must be a binary variable.'')
        else if \<not> prop then
          (case export_pred_R ds g0 g1 of
             Inl e \<Rightarrow> Inl e
           | Inr export_pred \<Rightarrow> r_apply2 (\<lambda>x. rmse y x) export_pred)
        else
          mapM (\<lambda>j. logloss eps ds (map (\<lambda>p. 1 - p) (r_column m j)) (r_column m j))
               [0..<w])))"

text \<open>
  \<^verbatim>\<open>rep_propscore_plot\<close> returns a ggplot object, a description of the plot that is
  rendered later by the ggplot2 package: the melted table of (repetition number, value)
  rows, the repetition numbers in the order of the columns (the levels of the melted
  \<^verbatim>\<open>variable\<close>, by which \<^verbatim>\<open>facet_grid\<close> splits the plot), the number of bins and the
  limits of the x axis. \<^verbatim>\<open>data.table(x[,,1])\<close> has one column per column of the slice, a
  single column when the slice has dropped to a vector because an extent is 1, and no
  column for \<^verbatim>\<open>NULL\<close>; assigning the column names fails when their number is not the
  number of columns.
\<close>

record ggplot =
  plot_data :: "(nat \<times> real) list"
  facet_levels :: "nat list"
  hist_bins :: nat
  x_limits :: "real \<times> real"

definition data_table :: "rmat option \<Rightarrow> real list list" where
  "data_table x =
     (case x of
        None \<Rightarrow> []
      | Some a \<Rightarrow>
          if nrow a = 1 \<or> ncol a = 1 then [mdata a]
          else map (r_column a) [0..<ncol a])"

definition rep_propscore_plot_R :: "DoubleMLIRM_R \<Rightarrow> error + ggplot" where
  "rep_propscore_plot_R obj =
     (if 1 < r_n_treat obj then Inl (Stop msg_n_treat)
      else
        let m = data_table (r_ml_m obj); nms = r_colon1 (r_n_rep obj)
        in if length nms \<noteq> length m then Inl (Stop ''cannot assign names'')
           else Inr \<lparr>plot_data = concat (map (\<lambda>(nm, c). map (Pair nm) c) (zip nms m)),
                     facet_levels = nms, hist_bins = 25, x_limits = (0, 1)\<rparr>)"

text \<open>
  Modelled from the spec: drawing the returned plot is done by the ggplot2 package, not by
  the notebooks. \<^verbatim>\<open>facet_grid(. ~ variable)\<close> gives one panel per repetition that has
  rows, in the order of the repetitions. For the histogram of a panel the spec describes
  the same summary as for the Python variant: the limits of the x axis are partitioned
  into \<open>hist_bins\<close> equal-width buckets and the values of the panel are counted per
  bucket, values outside the limits being in no bucket. The notebook leaves the
  arguments by which ggplot2 places the bucket boundaries at their defaults; the model
  takes the placement that the spec describes, whatever those defaults are.
\<close>

definition render :: "ggplot \<Rightarrow> (nat \<times> (real \<times> real \<times> nat) list) list" where
  "render gp =
     map (\<lambda>v. (v, hist (map snd (filter (\<lambda>r. fst r = v) (plot_data gp)))
                       (fst (x_limits gp)) (snd (x_limits gp)) (hist_bins gp)))
         (filter (\<lambda>v. v \<in> fst ` set (plot_data gp)) (facet_levels gp))"

subsection \<open>R: the fitted PLR object and \<^verbatim>\<open>pred_acc_plr\<close>\<close>

text \<open>
  What \<^verbatim>\<open>pred_acc_plr\<close> reads from \<^verbatim>\<open>obj\<close>: the outcome and treatment columns, the
  fitted coefficient \<^verbatim>\<open>obj$coef\<close> of the treatment variable, \<^verbatim>\<open>obj$data$n_obs\<close> and the
  stored predictions by name; a name that is not stored gives \<^verbatim>\<open>NULL\<close>, which behaves as
  a vector of length zero. A stored array has the extents \<open>n_obs \<times> n_rep \<times> 1\<close> and is
  represented by its matrix of the first two.
\<close>

record DoubleMLPLR_R =
  plr_y :: "real list"
  plr_d :: "real list"
  plr_coef :: real
  plr_n_obs :: nat
  plr_predictions :: "string \<Rightarrow> rmat option"

text \<open>
  The value assigned to \<^verbatim>\<open>export_pred\<close>: \<open>None\<close> when \<open>nuis\<close> is neither name and
  nothing is assigned.
\<close>

definition export_pred_plr :: "real \<Rightarrow> real list \<Rightarrow> rvalue \<Rightarrow> string \<Rightarrow> error + rvalue option" where
  "export_pred_plr theta ds ml_nuis nuis =
     (if nuis = ''ml_l'' then
        (case r_arith (*) (Vec [theta]) (Vec ds) of
           Inl e \<Rightarrow> Inl e
         | Inr td \<Rightarrow> (case r_arith (+) td ml_nuis of Inl e \<Rightarrow> Inl e | Inr v \<Rightarrow> Inr (Some v)))
      else if nuis = ''ml_m'' then Inr (Some ml_nuis)
      else Inr None)"

definition pred_acc_plr :: "DoubleMLPLR_R \<Rightarrow> string \<Rightarrow> error + real" where
  "pred_acc_plr obj nuis =
     (let y = plr_y obj; ds = plr_d obj; theta = plr_coef obj;
          ml_nuis = (case plr_predictions obj nuis of None \<Rightarrow> Vec [] | Some a \<Rightarrow> Mat a);
          h = plr_n_obs obj
      in case export_pred_plr theta ds ml_nuis nuis of
           Inl e \<Rightarrow> Inl e
         | Inr export_pred \<Rightarrow> rmse y (rdata ml_nuis))"


section \<open>Properties\<close>

lemma mapM_Inr:
  "(\<And>x. x \<in> set xs \<Longrightarrow> f x = Inr (g x)) \<Longrightarrow> mapM f xs = Inr (map g xs)"
  by (induction xs) auto

subsection \<open>The Python evaluator on well-formed input\<close>

lemma sum_list_map2_nth:
  "length xs = length ys \<Longrightarrow>
   sum_list (map2 f xs ys) = (\<Sum>j<length xs. (f (xs ! j) (ys ! j) :: real))"
  by (simp add: sum_list_sum_nth atLeast0LessThan)

lemma mapM_cong:
  "(\<And>x. x \<in> set xs \<Longrightarrow> f x = g x) \<Longrightarrow> mapM f xs = mapM g xs"
proof (induction xs)
  case Nil
  then show ?case by simp
next
  case (Cons a xs)
  have "f a = g a" by (rule Cons.prems) simp
  moreover have "mapM f xs = mapM g xs" by (rule Cons.IH) (simp add: Cons.prems)
  ultimately show ?case by (simp split: sum.splits)
qed

lemma map_elem_single:
  "shape2 a = 1 \<Longrightarrow> map (elem a j i) [0..<shape2 a] = [elem a j i 0]"
  by simp

lemma pick_pred_ok:
  assumes "isin01_all ds" "j < length ds" "j < shape0 g0" "j < shape0 g1"
    "i < shape1 g0" "i < shape1 g1" "shape2 g0 = 1" "shape2 g1 = 1"
  shows "pick_pred ds (Some g0) (Some g1) i j =
    Inr (if ds ! j = 1 then elem g1 j i 0 else elem g0 j i 0)"
  using assms
  by (auto simp: pick_pred_def getitem_def getitem2_def setitem_scalar_def isin01_all_def
      list_all_length)

lemma export_pred_array_ok:
  assumes "isin01_all ds" "h \<le> length ds" "h \<le> shape0 g0" "h \<le> shape0 g1"
    "w \<le> shape1 g0" "w \<le> shape1 g1" "shape2 g0 = 1" "shape2 g1 = 1"
  shows "export_pred_array ds (Some g0) (Some g1) h w =
    Inr (map (\<lambda>i. map (\<lambda>j. if ds ! j = 1 then elem g1 j i 0 else elem g0 j i 0) [0..<h])
          [0..<w])"
  unfolding export_pred_array_def using assms
  by (intro mapM_Inr) (simp add: pick_pred_ok)

lemma mean_squared_error_ok:
  assumes "length y = length p" "y \<noteq> []"
  shows "mean_squared_error y p = Inr (sqrt ((\<Sum>j<length y. (y ! j - p ! j)\<^sup>2) / real (length y)))"
  using assms by (simp add: mean_squared_error_def sum_list_map2_nth)

lemma mean_squared_error_blend:
  assumes "length y = n" "0 < n"
  shows "mean_squared_error y (map f [0..<n]) =
    Inr (sqrt ((\<Sum>j<n. (y ! j - f j)\<^sup>2) / real n))"
proof -
  have "mean_squared_error y (map f [0..<n]) =
      Inr (sqrt ((\<Sum>j<length y. (y ! j - map f [0..<n] ! j)\<^sup>2) / real (length y)))"
    using assms by (intro mean_squared_error_ok) auto
  moreover have "(\<Sum>j<n. (y ! j - map f [0..<n] ! j)\<^sup>2) = (\<Sum>j<n. (y ! j - f j)\<^sup>2)"
    by (intro sum.cong) simp_all
  ultimately show ?thesis using assms(1) by simp
qed

lemma pred_acc_irm_regression:
  assumes "isin01_all (dml_d obj)"
    and "length (dml_d obj) = n"
    and "predictions obj = Some dict"
    and "dict ''ml_g0'' = Some g0" and "dict ''ml_g1'' = Some g1"
    and "shape0 g0 = n" and "shape1 g0 = n_rep obj" and "shape2 g0 = 1"
    and "shape0 g1 = n" and "shape1 g1 = n_rep obj" and "shape2 g1 = 1"
  shows "pred_acc_irm obj False =
    mapM (\<lambda>i. mean_squared_error (dml_y obj)
                 (map (\<lambda>j. if dml_d obj ! j = 1 then elem g1 j i 0
                            else elem g0 j i 0) [0..<n])) [0..<n_rep obj]"
proof -
  let ?bl = "\<lambda>i. map (\<lambda>j. if dml_d obj ! j = 1 then elem g1 j i 0
                   else elem g0 j i 0) [0..<n]"
  have ex: "export_pred_array (dml_d obj) (Some g0) (Some g1) n (n_rep obj)
      = Inr (map ?bl [0..<n_rep obj])"
    using assms by (intro export_pred_array_ok) simp_all
  have "mapM (\<lambda>i. mean_squared_error (dml_y obj) (map ?bl [0..<n_rep obj] ! i)) [0..<n_rep obj]
      = mapM (\<lambda>i. mean_squared_error (dml_y obj) (?bl i)) [0..<n_rep obj]"
    by (rule mapM_cong) (simp cong: if_cong)
  then show ?thesis
    using assms(1,3,4,5,6) by (simp add: pred_acc_irm_def get_def shape_0_def Let_def ex)
qed

subsection \<open>Bounds on the logarithm of 0.9\<close>

lemma ln_09_upper: "- ln (0.9::real) < 0.106"
proof -
  have "(10/9::real) < 1 + 0.106 + (0.106)\<^sup>2 / 2" by (simp add: power2_eq_square)
  also have "\<dots> \<le> exp 0.106" by (rule exp_lower_Taylor_quadratic) simp
  finally have "exp (ln (10/9::real)) < exp 0.106" by simp
  then have "ln (10/9::real) < 0.106" by (simp only: exp_less_cancel_iff)
  moreover have "ln (10/9::real) = - ln 0.9"
    using ln_inverse [of "0.9::real"] by simp
  ultimately show ?thesis by simp
qed

lemma ln_09_lower: "0.105 < - ln (0.9::real)"
proof -
  have "(0.9::real) < (1 + (- 0.105) / real 32) ^ 32" by (simp add: power_divide)
  also have "\<dots> \<le> exp (- 0.105)"
    by (rule exp_ge_one_plus_x_over_n_power_n) simp_all
  finally have "exp (ln (0.9::real)) < exp (- 0.105)" by simp
  then have "ln (0.9::real) < - 0.105" by (simp only: exp_less_cancel_iff)
  then show ?thesis by simp
qed

lemma concat_singletons: "concat (map (\<lambda>x. [f x]) xs) = map f xs"
  by (induction xs) simp_all

lemma log_loss_ok:
  assumes "length t = length p" "t \<noteq> []"
  shows "log_loss t (map (\<lambda>x. [x]) p) eps = Inr (- ((\<Sum>j<length t.
            t ! j * ln (min (1 - eps) (max eps (p ! j)))
            + (1 - t ! j) * ln (1 - min (1 - eps) (max eps (p ! j)))) / real (length t)))"
proof -
  have "concat (map (\<lambda>x. [x]) p) = p"
    using concat_singletons [of "\<lambda>x. x" p] by simp
  moreover have "list_all (\<lambda>r. length r = 1) (map (\<lambda>x. [x]) p)"
    by (simp add: list_all_iff)
  ultimately show ?thesis
    using assms by (simp add: log_loss_def clip_def sum_list_map2_nth)
qed

lemma log_loss_column:
  assumes "length t = n" "0 < n"
  shows "log_loss t (map (\<lambda>j. [f j]) [0..<n]) eps = Inr (- ((\<Sum>j<n.
            t ! j * ln (min (1 - eps) (max eps (f j)))
            + (1 - t ! j) * ln (1 - min (1 - eps) (max eps (f j)))) / real n))"
proof -
  have "log_loss t (map (\<lambda>x. [x]) (map f [0..<n])) eps = Inr (- ((\<Sum>j<length t.
            t ! j * ln (min (1 - eps) (max eps (map f [0..<n] ! j)))
            + (1 - t ! j) * ln (1 - min (1 - eps) (max eps (map f [0..<n] ! j))))
            / real (length t)))"
    using assms by (intro log_loss_ok) auto
  moreover have "(\<Sum>j<n. t ! j * ln (min (1 - eps) (max eps (map f [0..<n] ! j)))
            + (1 - t ! j) * ln (1 - min (1 - eps) (max eps (map f [0..<n] ! j)))) =
          (\<Sum>j<n. t ! j * ln (min (1 - eps) (max eps (f j)))
            + (1 - t ! j) * ln (1 - min (1 - eps) (max eps (f j))))"
    by (intro sum.cong) simp_all
  moreover have "map (\<lambda>x. [x]) (map f [0..<n]) = map (\<lambda>j. [f j]) [0..<n]"
    by simp
  ultimately show ?thesis using assms(1) by (simp add: comp_def)
qed

lemma column_single:
  assumes "i < shape1 m" "shape2 m = 1"
  shows "column (Some m) i = Inr (map (\<lambda>j. [elem m j i 0]) [0..<shape0 m])"
  using assms by (simp add: column_def)

lemma pred_acc_irm_propensity:
  assumes "isin01_all (dml_d obj)"
    and "predictions obj = Some dict"
    and "dict ''ml_g0'' = Some g0" and "dict ''ml_m'' = Some m"
    and "shape0 m = n" and "shape1 m = n_rep obj" and "shape2 m = 1"
  shows "pred_acc_irm obj True =
    mapM (\<lambda>i. log_loss (dml_d obj) (map (\<lambda>j. [elem m j i 0]) [0..<n]) 0.025)
         [0..<n_rep obj]"
proof -
  have "mapM (\<lambda>i. case column (Some m) i of Inl e \<Rightarrow> Inl e
                 | Inr p \<Rightarrow> log_loss (dml_d obj) p 0.025) [0..<n_rep obj] =
        mapM (\<lambda>i. log_loss (dml_d obj) (map (\<lambda>j. [elem m j i 0]) [0..<n]) 0.025)
         [0..<n_rep obj]"
    using assms(5,6,7) by (intro mapM_cong) (simp add: column_single)
  then show ?thesis
    using assms(1,2,3,4) by (simp add: pred_acc_irm_def get_def shape_0_def Let_def)
qed

subsection \<open>Errors raised by the loops and by the guards\<close>

lemma mapM_Inl_iff:
  "(\<exists>e. mapM f xs = Inl e) \<longleftrightarrow> (\<exists>x\<in>set xs. \<exists>e. f x = Inl e)"
  by (induction xs) (auto split: sum.splits)


lemma mapM_length:
  "mapM f xs = Inr vs \<Longrightarrow> length vs = length xs"
  by (induction xs arbitrary: vs) (auto split: sum.splits)

lemma mapM_nth:
  "mapM f xs = Inr vs \<Longrightarrow> i < length xs \<Longrightarrow> f (xs ! i) = Inr (vs ! i)"
proof (induction xs arbitrary: vs i)
  case Nil
  then show ?case by simp
next
  case (Cons x xs)
  then show ?case by (cases i) (auto split: sum.splits)
qed






lemma pred_acc_irm_not_stored:
  "predictions obj = None \<Longrightarrow> pred_acc_irm obj prop = Inl AttributeError"
  "predictions obj = Some dict \<Longrightarrow> dict ''ml_g0'' = None
     \<Longrightarrow> pred_acc_irm obj prop = Inl AttributeError"
  by (simp_all add: pred_acc_irm_def get_def shape_0_def)

lemma pred_acc_irm_stored:
  assumes "predictions obj = Some dict" "dict ''ml_g0'' = Some g0"
  shows "pred_acc_irm obj prop =
    (if \<not> isin01_all (dml_d obj)
     then Inl (ValueError ''Treatment must be a binary variable.'')
     else if \<not> prop then
       (case export_pred_array (dml_d obj) (Some g0) (dict ''ml_g1'') (shape0 g0) (n_rep obj) of
          Inl e \<Rightarrow> Inl e
        | Inr cols \<Rightarrow> mapM (\<lambda>i. mean_squared_error (dml_y obj) (cols ! i)) [0..<n_rep obj])
     else
       mapM (\<lambda>i. case column (dict ''ml_m'') i of
                    Inl e \<Rightarrow> Inl e
                  | Inr p \<Rightarrow> log_loss (dml_d obj) p 0.025) [0..<n_rep obj])"
  using assms by (simp add: pred_acc_irm_def get_def shape_0_def Let_def)

lemma pred_acc_irm_nonbinary:
  assumes "\<not> isin01_all (dml_d obj)"
  shows "\<exists>e. pred_acc_irm obj prop = Inl e"
proof (cases "predictions obj")
  case None
  then show ?thesis by (simp add: pred_acc_irm_not_stored)
next
  case (Some dict)
  show ?thesis
  proof (cases "dict ''ml_g0''")
    case None
    with Some show ?thesis by (simp add: pred_acc_irm_not_stored)
  next
    case (Some g0)
    with \<open>predictions obj = Some dict\<close> assms show ?thesis
      by (simp add: pred_acc_irm_stored)
  qed
qed



lemma pred_acc_irm_R_guard:
  "1 < r_n_treat obj \<Longrightarrow> pred_acc_irm_R eps obj prop = Inl (Stop msg_n_treat)"
  by (simp add: pred_acc_irm_R_def)

lemma r_matrix_pos: "0 < nc \<Longrightarrow> \<exists>a. r_matrix (Some xs) nc = Inr a"
  by (simp add: r_matrix_def Let_def)

lemma pred_acc_irm_R_nonbinary:
  assumes "\<not> list_all (\<lambda>x. x = 0 \<or> x = 1) (r_d obj)"
  shows "\<exists>e. pred_acc_irm_R eps obj prop = Inl e"
    and "r_n_treat obj \<le> 1 \<Longrightarrow> 0 < r_n_rep obj \<Longrightarrow>
      r_ml_g0 obj = Some a0 \<Longrightarrow> r_ml_g1 obj = Some a1 \<Longrightarrow> r_ml_m obj = Some am \<Longrightarrow>
      pred_acc_irm_R eps obj prop = Inl (Stop ''Treatment must be a binary variable.'')"
proof -
  have nb: "\<not> list_all (\<lambda>x. x = 0 \<or> x = 1) (remdups (r_d obj))"
    using assms by (simp add: list_all_iff)
  show "\<exists>e. pred_acc_irm_R eps obj prop = Inl e"
    using nb by (auto simp: pred_acc_irm_R_def Let_def split: sum.splits)
  assume "r_n_treat obj \<le> 1" "0 < r_n_rep obj"
    "r_ml_g0 obj = Some a0" "r_ml_g1 obj = Some a1" "r_ml_m obj = Some am"
  then show "pred_acc_irm_R eps obj prop = Inl (Stop ''Treatment must be a binary variable.'')"
    using nb by (simp add: pred_acc_irm_R_def r_matrix_def Let_def)
qed

lemma pred_acc_irm_R_not_stored:
  assumes "r_n_treat obj \<le> 1"
    "r_ml_g0 obj = None \<or> r_ml_g1 obj = None \<or> r_ml_m obj = None"
  shows "\<exists>msg. pred_acc_irm_R eps obj prop = Inl (Stop msg)
      \<and> msg \<noteq> ''Treatment must be a binary variable.''"
  using assms
  by (auto simp: pred_acc_irm_R_def r_matrix_def Let_def split: sum.splits option.splits)

text \<open>
  Claim C3, as amended. When the treatment vector has a value other than 0 and 1, no
  accuracy result is computed: both evaluators end in an error. Which error it is depends
  on the statements that come before the check of the treatment values. The Python
  evaluator raises the error with the message that the treatment must be a binary
  variable when the predictions of \<^verbatim>\<open>ml_g0\<close> are stored; when they are not,
  \<^verbatim>\<open>predictions.get\<close> or \<^verbatim>\<open>g0.shape[0]\<close> has raised an \<open>AttributeError\<close> before. The R
  evaluator raises the error with that message when the data has at most one treatment
  column, there is at least one repetition and the three prediction arrays are stored;
  with more treatment columns its first check stops with the other message, and without
  stored predictions a \<^verbatim>\<open>matrix\<close> call stops. The counterexample has one input of each
  variant with the treatment value 2 and another error.
\<close>

theorem nonbinary_treatment_rejected:
  assumes "\<exists>x\<in>set ds. x \<noteq> 0 \<and> x \<noteq> 1"
  shows "(dml_d obj = ds \<longrightarrow>
            (\<exists>e. pred_acc_irm obj prop = Inl e)
          \<and> (predictions obj = Some dict \<and> dict ''ml_g0'' = Some g0 \<longrightarrow>
               pred_acc_irm obj prop = Inl (ValueError ''Treatment must be a binary variable.''))
          \<and> (predictions obj = None \<or> (predictions obj = Some dict \<and> dict ''ml_g0'' = None) \<longrightarrow>
               pred_acc_irm obj prop = Inl AttributeError))
       \<and> (r_d robj = ds \<longrightarrow>
            (\<exists>e. pred_acc_irm_R eps robj prop = Inl e)
          \<and> (r_n_treat robj \<le> 1 \<and> 0 < r_n_rep robj \<and> r_ml_g0 robj = Some a0
                \<and> r_ml_g1 robj = Some a1 \<and> r_ml_m robj = Some am \<longrightarrow>
               pred_acc_irm_R eps robj prop = Inl (Stop ''Treatment must be a binary variable.''))
          \<and> (1 < r_n_treat robj \<longrightarrow> pred_acc_irm_R eps robj prop = Inl (Stop msg_n_treat))
          \<and> (r_n_treat robj \<le> 1
                \<and> (r_ml_g0 robj = None \<or> r_ml_g1 robj = None \<or> r_ml_m robj = None) \<longrightarrow>
               (\<exists>msg. pred_acc_irm_R eps robj prop = Inl (Stop msg)
                  \<and> msg \<noteq> ''Treatment must be a binary variable.'')))"
proof -
  have nb: "\<not> list_all (\<lambda>x. x = 0 \<or> x = 1) ds"
    using assms by (auto simp: list_all_iff)
  have "\<exists>e. pred_acc_irm obj prop = Inl e" if "dml_d obj = ds"
    using nb that by (intro pred_acc_irm_nonbinary) (simp add: isin01_all_def)
  moreover have "pred_acc_irm obj prop = Inl (ValueError ''Treatment must be a binary variable.'')"
    if "dml_d obj = ds" "predictions obj = Some dict" "dict ''ml_g0'' = Some g0"
    using nb that by (simp add: pred_acc_irm_stored isin01_all_def)
  moreover have "pred_acc_irm obj prop = Inl AttributeError"
    if "predictions obj = None \<or> (predictions obj = Some dict \<and> dict ''ml_g0'' = None)"
    using that pred_acc_irm_not_stored by blast
  moreover have "\<exists>e. pred_acc_irm_R eps robj prop = Inl e" if "r_d robj = ds"
    using nb that pred_acc_irm_R_nonbinary(1) by blast
  moreover have "pred_acc_irm_R eps robj prop = Inl (Stop ''Treatment must be a binary variable.'')"
    if "r_d robj = ds" "r_n_treat robj \<le> 1" "0 < r_n_rep robj"
      "r_ml_g0 robj = Some a0" "r_ml_g1 robj = Some a1" "r_ml_m robj = Some am"
    using nb that pred_acc_irm_R_nonbinary(2) by blast
  moreover have "pred_acc_irm_R eps robj prop = Inl (Stop msg_n_treat)" if "1 < r_n_treat robj"
    using that by (rule pred_acc_irm_R_guard)
  moreover have "\<exists>msg. pred_acc_irm_R eps robj prop = Inl (Stop msg)
      \<and> msg \<noteq> ''Treatment must be a binary variable.''"
    if "r_n_treat robj \<le> 1" "r_ml_g0 robj = None \<or> r_ml_g1 robj = None \<or> r_ml_m robj = None"
    using that by (rule pred_acc_irm_R_not_stored)
  ultimately show ?thesis by blast
qed

theorem nonbinary_treatment_rejected_witness:
  "(\<exists>x\<in>set [0, 2, 1 :: real]. x \<noteq> 0 \<and> x \<noteq> 1)
   \<and> pred_acc_irm \<lparr>dml_y = [1, 2, 3], dml_d = [0, 2, 1],
      predictions = Some [''ml_g0'' \<mapsto> of_rows [[1], [1], [1]],
                          ''ml_g1'' \<mapsto> of_rows [[2], [2], [2]],
                          ''ml_m'' \<mapsto> of_rows [[0.5], [0.5], [0.5]]],
      n_rep = 1\<rparr> False = Inl (ValueError ''Treatment must be a binary variable.'')
   \<and> pred_acc_irm_R 0.025 \<lparr>r_n_treat = 1, r_n_obs = 3, r_n_rep = 1,
      r_y = [1, 2, 3], r_d = [0, 2, 1],
      r_ml_g0 = Some \<lparr>nrow = 3, ncol = 1, mdata = [1, 1, 1]\<rparr>,
      r_ml_g1 = Some \<lparr>nrow = 3, ncol = 1, mdata = [2, 2, 2]\<rparr>,
      r_ml_m = Some \<lparr>nrow = 3, ncol = 1, mdata = [0.5, 0.5, 0.5]\<rparr>\<rparr> False
     = Inl (Stop ''Treatment must be a binary variable.'')"
  using nonbinary_treatment_rejected [where ds = "[0, 2, 1]"
     and obj = "\<lparr>dml_y = [1, 2, 3], dml_d = [0, 2, 1],
      predictions = Some [''ml_g0'' \<mapsto> of_rows [[1], [1], [1]],
                          ''ml_g1'' \<mapsto> of_rows [[2], [2], [2]],
                          ''ml_m'' \<mapsto> of_rows [[0.5], [0.5], [0.5]]],
      n_rep = 1\<rparr>"
     and dict = "[''ml_g0'' \<mapsto> of_rows [[1], [1], [1]],
                  ''ml_g1'' \<mapsto> of_rows [[2], [2], [2]],
                  ''ml_m'' \<mapsto> of_rows [[0.5], [0.5], [0.5]]]"
     and ?g0.0 = "of_rows [[1], [1], [1]]"
     and robj = "\<lparr>r_n_treat = 1, r_n_obs = 3, r_n_rep = 1,
      r_y = [1, 2, 3], r_d = [0, 2, 1],
      r_ml_g0 = Some \<lparr>nrow = 3, ncol = 1, mdata = [1, 1, 1]\<rparr>,
      r_ml_g1 = Some \<lparr>nrow = 3, ncol = 1, mdata = [2, 2, 2]\<rparr>,
      r_ml_m = Some \<lparr>nrow = 3, ncol = 1, mdata = [0.5, 0.5, 0.5]\<rparr>\<rparr>"
     and eps = "0.025"
     and ?a0.0 = "\<lparr>nrow = 3, ncol = 1, mdata = [1, 1, 1]\<rparr>"
     and ?a1.0 = "\<lparr>nrow = 3, ncol = 1, mdata = [2, 2, 2]\<rparr>"
     and am = "\<lparr>nrow = 3, ncol = 1, mdata = [0.5, 0.5, 0.5]\<rparr>", of False]
  by simp

theorem nonbinary_treatment_counterexample:
  "(2 :: real) \<in> set [0, 2, 1]
   \<and> pred_acc_irm_R 0.025 \<lparr>r_n_treat = 2, r_n_obs = 3, r_n_rep = 1,
      r_y = [1, 2, 3], r_d = [0, 2, 1],
      r_ml_g0 = Some \<lparr>nrow = 3, ncol = 1, mdata = [1, 1, 1]\<rparr>,
      r_ml_g1 = Some \<lparr>nrow = 3, ncol = 1, mdata = [2, 2, 2]\<rparr>,
      r_ml_m = Some \<lparr>nrow = 3, ncol = 1, mdata = [0.5, 0.5, 0.5]\<rparr>\<rparr> False
     = Inl (Stop msg_n_treat)
   \<and> Stop msg_n_treat \<noteq> Stop ''Treatment must be a binary variable.''
   \<and> pred_acc_irm \<lparr>dml_y = [1, 2, 3], dml_d = [0, 2, 1], predictions = None, n_rep = 1\<rparr> False
     = Inl AttributeError"
  by (simp add: pred_acc_irm_R_def msg_n_treat_def pred_acc_irm_def get_def)




subsection \<open>Histogram buckets\<close>

lemma edge01: "edge 0 1 25 k = real k / 25"
  by (simp add: edge_def)

lemma in_bucket01:
  "in_bucket 0 1 25 k v \<longleftrightarrow> real k / 25 \<le> v \<and> (if k = 24 then v \<le> 1 else v < real (Suc k) / 25)"
  unfolding in_bucket_def edge01 by auto

lemma bucket_unique:
  assumes "0 \<le> v" "v \<le> 1" "k < 25"
  shows "in_bucket 0 1 25 k v \<longleftrightarrow> k = (if v = 1 then 24 else nat \<lfloor>v * 25\<rfloor>)"
proof (cases "v = 1")
  case True
  have "k = 24" if "real k / 25 \<le> 1" "k \<noteq> 24 \<longrightarrow> 1 < real (Suc k) / 25"
    using that assms(3) by (cases "k = 24") auto
  then show ?thesis using True assms(3) by (auto simp: in_bucket01)
next
  case False
  then have v1: "v < 1" using assms by simp
  have fl: "\<lfloor>v * 25\<rfloor> = int k \<longleftrightarrow> real k \<le> v * 25 \<and> v * 25 < real k + 1"
    by (auto simp: floor_eq_iff)
  have nn: "0 \<le> \<lfloor>v * 25\<rfloor>" using assms by simp
  have "in_bucket 0 1 25 k v \<longleftrightarrow> real k \<le> v * 25 \<and> v * 25 < real k + 1"
    using v1 assms(3) by (auto simp: in_bucket01 field_simps)
  also have "\<dots> \<longleftrightarrow> \<lfloor>v * 25\<rfloor> = int k" using fl by simp
  also have "\<dots> \<longleftrightarrow> k = nat \<lfloor>v * 25\<rfloor>" using nn by auto
  finally show ?thesis using False by simp
qed

lemma bucket_index_bound:
  fixes v :: real
  assumes "0 \<le> v" "v \<le> 1"
  shows "(if v = 1 then 24 else nat \<lfloor>v * 25\<rfloor>) < 25"
proof (cases "v = 1")
  case True then show ?thesis by simp
next
  case False
  then have "v * 25 < 25" using assms by simp
  then have "\<lfloor>v * 25\<rfloor> < 25" by (simp add: floor_less_iff)
  then have "nat \<lfloor>v * 25\<rfloor> < 25" by linarith
  then show ?thesis using False by (simp only: if_False)
qed

lemma bucket_none:
  assumes "\<not> (0 \<le> v \<and> v \<le> 1)" "k < 25"
  shows "\<not> in_bucket 0 1 25 k v"
proof
  assume b: "in_bucket 0 1 25 k v"
  then have "0 \<le> v" by (auto simp: in_bucket01 intro: order_trans [of 0 "real k / 25"])
  moreover have "v \<le> 1"
  proof (cases "k = 24")
    case True with b show ?thesis by (simp add: in_bucket01)
  next
    case False
    with b have "v < real (Suc k) / 25" by (simp add: in_bucket01)
    moreover have "real (Suc k) / 25 \<le> 1" using assms(2) by simp
    ultimately show ?thesis by linarith
  qed
  ultimately show False using assms(1) by simp
qed

lemma sum_indicator_nat:
  "k0 < n \<Longrightarrow> (\<Sum>k<n. if k = k0 then 1 else 0) = (1::nat)" for k0 n :: nat
proof -
  assume "k0 < n"
  have "(\<Sum>k\<in>{..<n}. if k = k0 then (\<lambda>_. 1::nat) k else 0) = (if k0 \<in> {..<n} then 1 else 0)"
    by (rule sum.delta) simp
  then show ?thesis using \<open>k0 < n\<close> by simp
qed

lemma buckets_of_value:
  "(\<Sum>k<25. if in_bucket 0 1 25 k v then 1 else 0) = (if 0 \<le> v \<and> v \<le> 1 then 1 else (0::nat))"
proof (cases "0 \<le> v \<and> v \<le> 1")
  case True
  let ?k0 = "if v = 1 then 24 else nat \<lfloor>v * 25\<rfloor>"
  have "(\<Sum>k<25. if in_bucket 0 1 25 k v then 1 else 0) = (\<Sum>k<25. if k = ?k0 then 1 else (0::nat))"
    using True by (intro sum.cong refl) (simp add: bucket_unique)
  also have "\<dots> = 1" using True by (intro sum_indicator_nat bucket_index_bound) simp_all
  finally show ?thesis using True by simp
next
  case False
  then have "(\<Sum>k<25. if in_bucket 0 1 25 k v then 1 else 0) = (\<Sum>k<(25::nat). (0::nat))"
    by (intro sum.cong refl) (simp add: bucket_none)
  then show ?thesis using False by simp
qed

lemma bucket_counts_total:
  "(\<Sum>k<25. length (filter (in_bucket 0 1 25 k) x)) = length (filter (\<lambda>v. 0 \<le> v \<and> v \<le> 1) x)"
proof (induction x)
  case Nil
  then show ?case by simp
next
  case (Cons v x)
  have "(\<Sum>k<25. length (filter (in_bucket 0 1 25 k) (v # x))) =
        (\<Sum>k<25. (if in_bucket 0 1 25 k v then 1 else 0) + length (filter (in_bucket 0 1 25 k) x))"
    by (intro sum.cong refl) simp
  also have "\<dots> = (\<Sum>k<25. if in_bucket 0 1 25 k v then 1 else 0)
                  + (\<Sum>k<25. length (filter (in_bucket 0 1 25 k) x))"
    by (simp add: sum.distrib)
  finally show ?case by (simp add: buckets_of_value Cons.IH)
qed

lemma hist_counts_total:
  "sum_list (map (snd \<circ> snd) (hist x 0 1 25)) = length (filter (\<lambda>v. 0 \<le> v \<and> v \<le> 1) x)"
proof -
  have "sum_list (map (snd \<circ> snd) (hist x 0 1 25)) =
        sum_list (map (\<lambda>k. length (filter (in_bucket 0 1 25 k) x)) [0..<25])"
    by (simp add: hist_def comp_def)
  also have "\<dots> = (\<Sum>k<25. length (filter (in_bucket 0 1 25 k) x))"
    by (simp only: interv_sum_list_conv_sum_set_nat atLeast_upt [symmetric] lessThan_atLeast0)
  finally show ?thesis by (simp only: bucket_counts_total)
qed

subsection \<open>The Python summarizer\<close>

lemma hist_of_column_ok:
  assumes "i < shape1 m" "shape2 m = 1"
  shows "hist_of_column (Some m) (shape0 m) i =
    Inr (hist (map (\<lambda>j. elem m j i 0) [0..<shape0 m]) 0 1 25)"
proof -
  have "column (Some m) i = Inr (map (\<lambda>j. [elem m j i 0]) [0..<shape0 m])"
    using assms by (rule column_single)
  moreover have "np_reshape (map (\<lambda>j. [elem m j i 0]) [0..<shape0 m]) (shape0 m) =
      Inr (map (\<lambda>j. elem m j i 0) [0..<shape0 m])"
    by (simp add: np_reshape_def concat_singletons)
  ultimately show ?thesis by (simp add: hist_of_column_def)
qed

lemma rep_propscore_plot_stored:
  assumes "predictions obj = Some dict" "dict ''ml_m'' = Some m"
  shows "rep_propscore_plot obj =
    (if 1 < n_rep obj then
       mapM (\<lambda>i. case hist_of_column (Some m) (shape0 m) i of
                    Inl e \<Rightarrow> Inl e
                  | Inr hg \<Rightarrow> Inr [hg]) [0..<n_rep obj]
     else
       (case hist_of_column (Some m) (shape0 m) 0 of
          Inl e \<Rightarrow> Inl e
        | Inr hg1 \<Rightarrow> (case hist_of_column (Some m) (shape0 m) 0 of
                       Inl e \<Rightarrow> Inl e
                     | Inr hg2 \<Rightarrow> Inr [[hg1, hg2]])))"
  using assms by (simp add: rep_propscore_plot_def get_def shape_0_def Let_def)

lemma rep_propscore_plot_ok:
  assumes "predictions obj = Some dict" "dict ''ml_m'' = Some m"
    "shape1 m = n_rep obj" "shape2 m = 1" "0 < n_rep obj"
  shows "rep_propscore_plot obj =
    Inr (if 1 < n_rep obj
         then map (\<lambda>i. [hist (map (\<lambda>j. elem m j i 0) [0..<shape0 m]) 0 1 25])
                  [0..<n_rep obj]
         else [[hist (map (\<lambda>j. elem m j 0 0) [0..<shape0 m]) 0 1 25,
                hist (map (\<lambda>j. elem m j 0 0) [0..<shape0 m]) 0 1 25]])"
proof (cases "1 < n_rep obj")
  case True
  have "mapM (\<lambda>i. case hist_of_column (Some m) (shape0 m) i of Inl e \<Rightarrow> Inl e | Inr hg \<Rightarrow> Inr [hg])
          [0..<n_rep obj] =
        Inr (map (\<lambda>i. [hist (map (\<lambda>j. elem m j i 0) [0..<shape0 m]) 0 1 25]) [0..<n_rep obj])"
    using assms(3,4) by (intro mapM_Inr) (simp add: hist_of_column_ok)
  then show ?thesis using True assms(1,2) by (simp add: rep_propscore_plot_stored)
next
  case False
  then show ?thesis
    using assms by (simp add: rep_propscore_plot_stored hist_of_column_ok)
qed

lemma rep_propscore_plot_axes:
  assumes "predictions obj = Some dict" "dict ''ml_m'' = Some m"
    "shape1 m = n_rep obj" "shape2 m = 1" "0 < n_rep obj"
  shows "\<exists>axes. rep_propscore_plot obj = Inr axes \<and> length axes = n_rep obj \<and>
    (\<forall>i<n_rep obj. set (axes ! i) =
       {hist (map (\<lambda>j. elem m j i 0) [0..<shape0 m]) 0 1 25})"
proof (cases "1 < n_rep obj")
  case True
  then show ?thesis using rep_propscore_plot_ok [OF assms] by simp
next
  case False
  then have "n_rep obj = 1" using assms(5) by simp
  then show ?thesis using rep_propscore_plot_ok [OF assms] by simp
qed

lemma hist_nth:
  "k < 25 \<Longrightarrow> hist (map f js) 0 1 25 ! k =
     (real k / 25, real (Suc k) / 25,
      length (filter (\<lambda>j. real k / 25 \<le> f j \<and> (if k = 24 then f j \<le> 1 else f j < real (Suc k) / 25)) js))"
proof -
  assume k: "k < 25"
  have "length (filter (in_bucket 0 1 25 k) (map f js)) =
        length (filter (\<lambda>j. real k / 25 \<le> f j \<and> (if k = 24 then f j \<le> 1 else f j < real (Suc k) / 25)) js)"
    by (simp add: filter_map comp_def in_bucket01)
  then show ?thesis using k by (simp add: hist_def edge01 del: upt_rec_numeral)
qed

lemma hist_length: "length (hist x lo hi bins) = bins"
  by (simp add: hist_def)

lemma hist_nth_list:
  "k < 25 \<Longrightarrow> hist x 0 1 25 ! k =
     (real k / 25, real (Suc k) / 25,
      length (filter (\<lambda>v. real k / 25 \<le> v \<and> (if k = 24 then v \<le> 1 else v < real (Suc k) / 25)) x))"
  using hist_nth [of k "\<lambda>v. v" x] by simp

subsection \<open>The R summarizer\<close>

lemma r_column_length:
  assumes "length (mdata a) = nrow a * w" "k < w"
  shows "length (r_column a k) = nrow a"
proof -
  have "Suc k \<le> w" using assms(2) by simp
  then have "Suc k * nrow a \<le> w * nrow a" by (rule mult_le_mono1)
  then have "nrow a \<le> nrow a * w - k * nrow a" by (simp add: mult.commute)
  then show ?thesis using assms(1) by (simp add: r_column_def)
qed

lemma data_table_columns:
  assumes "ncol a = w" "length (mdata a) = nrow a * w" "0 < w" "1 < nrow a \<or> w = 1"
  shows "data_table (Some a) = map (r_column a) [0..<w]"
proof (cases "w = 1")
  case True
  then show ?thesis using assms(1,2) by (simp add: data_table_def r_column_def)
next
  case False
  then show ?thesis using assms(1,4) by (simp add: data_table_def)
qed

lemma zip_map_upt:
  "zip (map f [0..<w]) (map g [0..<w]) = map (\<lambda>k. (f k, g k)) [0..<w]"
  by (simp add: zip_map_map zip_same_conv_map)

lemma filter_panel:
  "map snd (filter (\<lambda>r. fst r = Suc k) (concat (map (\<lambda>i. map (Pair (Suc i)) (c i)) ks))) =
   concat (map c (filter (\<lambda>i. i = k) ks))"
proof (induction ks)
  case Nil
  then show ?case by simp
next
  case (Cons i ks)
  have "map snd (filter (\<lambda>r. fst r = Suc k) (map (Pair (Suc i)) (c i))) =
        (if i = k then c i else [])"
    by (simp add: filter_map comp_def)
  then show ?case using Cons.IH by simp
qed

lemma filter_eq_upt: "k < w \<Longrightarrow> filter (\<lambda>i. i = k) [0..<w] = [k]"
proof (induction w)
  case 0
  then show ?case by simp
next
  case (Suc w)
  show ?case
  proof (cases "k < w")
    case True
    then show ?thesis using Suc.IH by simp
  next
    case False
    then have "k = w" using Suc.prems by simp
    moreover have "filter (\<lambda>i. i = w) [0..<w] = []" by (simp add: filter_empty_conv)
    ultimately show ?thesis by simp
  qed
qed

lemma render_panels:
  assumes "\<And>k. k < w \<Longrightarrow> c k \<noteq> []"
  shows "render \<lparr>plot_data = concat (map (\<lambda>i. map (Pair (Suc i)) (c i)) [0..<w]),
                 facet_levels = map Suc [0..<w], hist_bins = b, x_limits = (lo, hi)\<rparr> =
         map (\<lambda>k. (Suc k, hist (c k) lo hi b)) [0..<w]"
proof -
  let ?pd = "concat (map (\<lambda>i. map (Pair (Suc i)) (c i)) [0..<w])"
  have used: "Suc k \<in> fst ` set ?pd" if "k < w" for k
  proof -
    from assms [OF that] obtain v where "v \<in> set (c k)" by (cases "c k") auto
    then have "(Suc k, v) \<in> set ?pd" using that by auto
    then show ?thesis by force
  qed
  have "\<forall>v\<in>set (map Suc [0..<w]). v \<in> fst ` set ?pd"
  proof
    fix v assume "v \<in> set (map Suc [0..<w])"
    then have "v \<in> Suc ` {0..<w}" by (simp only: set_map set_upt)
    then obtain k where "v = Suc k" "k < w" by (elim imageE) simp
    then show "v \<in> fst ` set ?pd" using used by simp
  qed
  then have "filter (\<lambda>v. v \<in> fst ` set ?pd) (map Suc [0..<w]) = map Suc [0..<w]"
    by (simp only: filter_id_conv)
  moreover have "map snd (filter (\<lambda>r. fst r = Suc k) ?pd) = c k" if "k < w" for k
    using that by (simp only: filter_panel filter_eq_upt) simp
  ultimately show ?thesis by (simp add: render_def)
qed

lemma rep_propscore_plot_R_ok:
  assumes "r_n_treat robj \<le> 1" "r_ml_m robj = Some a" "ncol a = r_n_rep robj"
    "length (mdata a) = nrow a * r_n_rep robj" "0 < nrow a" "0 < r_n_rep robj"
    "1 < nrow a \<or> r_n_rep robj = 1"
  shows "rep_propscore_plot_R robj =
      Inr \<lparr>plot_data = concat (map (\<lambda>i. map (Pair (Suc i)) (r_column a i)) [0..<r_n_rep robj]),
           facet_levels = map Suc [0..<r_n_rep robj], hist_bins = 25, x_limits = (0, 1)\<rparr>"
    and "render \<lparr>plot_data = concat (map (\<lambda>i. map (Pair (Suc i)) (r_column a i)) [0..<r_n_rep robj]),
           facet_levels = map Suc [0..<r_n_rep robj], hist_bins = 25, x_limits = (0, 1)\<rparr> =
         map (\<lambda>k. (Suc k, hist (r_column a k) 0 1 25)) [0..<r_n_rep robj]"
proof -
  let ?w = "r_n_rep robj"
  have dt: "data_table (r_ml_m robj) = map (r_column a) [0..<?w]"
    using assms(2,3,4,6,7) by (simp add: data_table_columns)
  have nms: "r_colon1 ?w = map Suc [0..<?w]"
    using assms(6) by (simp add: r_colon1_def map_Suc_upt)
  have "concat (map (\<lambda>(nm, c). map (Pair nm) c) (zip (map Suc [0..<?w]) (map (r_column a) [0..<?w])))
      = concat (map (\<lambda>i. map (Pair (Suc i)) (r_column a i)) [0..<?w])"
    by (simp only: zip_map_upt) (simp add: comp_def)
  then show "rep_propscore_plot_R robj =
      Inr \<lparr>plot_data = concat (map (\<lambda>i. map (Pair (Suc i)) (r_column a i)) [0..<?w]),
           facet_levels = map Suc [0..<?w], hist_bins = 25, x_limits = (0, 1)\<rparr>"
    using assms(1) by (simp add: rep_propscore_plot_R_def Let_def dt nms)
  have "r_column a k \<noteq> []" if "k < ?w" for k
    using r_column_length [OF assms(4) that] assms(5) by auto
  then show "render \<lparr>plot_data = concat (map (\<lambda>i. map (Pair (Suc i)) (r_column a i)) [0..<?w]),
           facet_levels = map Suc [0..<?w], hist_bins = 25, x_limits = (0, 1)\<rparr> =
         map (\<lambda>k. (Suc k, hist (r_column a k) 0 1 25)) [0..<?w]"
    by (rule render_panels)
qed

text \<open>
  Claim C8 (\<^verbatim>\<open>rep_propscore_plot\<close>, both variants). For the stored prediction matrix of
  a model with one treatment variable, with one column per repetition, there is one
  histogram per repetition, of exactly 25 buckets, bucket \<open>k\<close> reaching from \<open>k/25\<close>
  to \<open>(k+1)/25\<close>, with the number of predictions of that repetition's column that fall
  in the bucket as its count. The Python summarizer draws one axes per repetition, and
  every histogram on the axes of repetition \<open>i\<close> is that of column \<open>i\<close>. The R
  summarizer returns a plot of the rows (repetition, value) of all columns with 25 bins
  and the x limits 0 and 1, which \<open>render\<close> draws as one panel per repetition; this
  is stated for a matrix with at least two rows or with a single column, because the
  slice \<^verbatim>\<open>[,,1]\<close> of a single row with several columns is a plain vector, for which the
  helper stops. The witness is the example of the specification: for the predictions
  0.02, 0.5 and 0.98 the buckets 0.0 - 0.04, 0.48 - 0.52 and 0.96 - 1.0 have count 1 and
  every other bucket has count 0.
\<close>

theorem histogram_per_repetition:
  "(predictions obj = Some dict \<and> dict ''ml_m'' = Some m
      \<and> shape1 m = n_rep obj \<and> shape2 m = 1 \<and> 0 < n_rep obj \<longrightarrow>
    (\<exists>axes. rep_propscore_plot obj = Inr axes \<and> length axes = n_rep obj \<and>
      (\<forall>i<n_rep obj. axes ! i \<noteq> [] \<and>
         (\<forall>hg\<in>set (axes ! i). length hg = 25 \<and>
            (\<forall>k<25. hg ! k =
               (real k / 25, real (Suc k) / 25,
                length (filter (\<lambda>j. real k / 25 \<le> elem m j i 0 \<and>
                                     (if k = 24 then elem m j i 0 \<le> 1
                                      else elem m j i 0 < real (Suc k) / 25))
                               [0..<shape0 m])))))))
   \<and> (r_n_treat robj \<le> 1 \<and> r_ml_m robj = Some a \<and> ncol a = r_n_rep robj
      \<and> length (mdata a) = nrow a * r_n_rep robj \<and> 0 < nrow a \<and> 0 < r_n_rep robj
      \<and> (1 < nrow a \<or> r_n_rep robj = 1) \<longrightarrow>
    (\<exists>gp. rep_propscore_plot_R robj = Inr gp
      \<and> plot_data gp = concat (map (\<lambda>i. map (Pair (Suc i)) (r_column a i)) [0..<r_n_rep robj])
      \<and> hist_bins gp = 25 \<and> x_limits gp = (0, 1)
      \<and> length (render gp) = r_n_rep robj \<and>
      (\<forall>i<r_n_rep robj. fst (render gp ! i) = Suc i \<and> length (snd (render gp ! i)) = 25 \<and>
         (\<forall>k<25. snd (render gp ! i) ! k =
            (real k / 25, real (Suc k) / 25,
             length (filter (\<lambda>v. real k / 25 \<le> v \<and>
                                  (if k = 24 then v \<le> 1 else v < real (Suc k) / 25))
                            (r_column a i)))))))"
proof (intro conjI impI)
  assume "predictions obj = Some dict \<and> dict ''ml_m'' = Some m
      \<and> shape1 m = n_rep obj \<and> shape2 m = 1 \<and> 0 < n_rep obj"
  then have "\<exists>axes. rep_propscore_plot obj = Inr axes \<and> length axes = n_rep obj \<and>
    (\<forall>i<n_rep obj. set (axes ! i) = {hist (map (\<lambda>j. elem m j i 0) [0..<shape0 m]) 0 1 25})"
    using rep_propscore_plot_axes [of obj dict m] by blast
  then obtain axes where
    a: "rep_propscore_plot obj = Inr axes" "length axes = n_rep obj"
       "\<forall>i<n_rep obj. set (axes ! i) = {hist (map (\<lambda>j. elem m j i 0) [0..<shape0 m]) 0 1 25}"
    by blast
  have "axes ! i \<noteq> []" if "i < n_rep obj" for i
    using a(3) that by fastforce
  moreover have "length hg = 25 \<and> (\<forall>k<25. hg ! k =
             (real k / 25, real (Suc k) / 25,
              length (filter (\<lambda>j. real k / 25 \<le> elem m j i 0 \<and>
                                   (if k = 24 then elem m j i 0 \<le> 1
                                    else elem m j i 0 < real (Suc k) / 25))
                             [0..<shape0 m])))"
    if "i < n_rep obj" "hg \<in> set (axes ! i)" for i hg
  proof -
    have "hg = hist (map (\<lambda>j. elem m j i 0) [0..<shape0 m]) 0 1 25"
      using a(3) that by simp
    then show ?thesis using hist_nth [of _ "\<lambda>j. elem m j i 0"]
      by (simp only: hist_length) blast
  qed
  ultimately show "\<exists>axes. rep_propscore_plot obj = Inr axes \<and> length axes = n_rep obj \<and>
      (\<forall>i<n_rep obj. axes ! i \<noteq> [] \<and>
         (\<forall>hg\<in>set (axes ! i). length hg = 25 \<and>
            (\<forall>k<25. hg ! k =
               (real k / 25, real (Suc k) / 25,
                length (filter (\<lambda>j. real k / 25 \<le> elem m j i 0 \<and>
                                     (if k = 24 then elem m j i 0 \<le> 1
                                      else elem m j i 0 < real (Suc k) / 25))
                               [0..<shape0 m])))))"
    using a(1,2) by blast
next
  let ?w = "r_n_rep robj"
  let ?gp = "\<lparr>plot_data = concat (map (\<lambda>i. map (Pair (Suc i)) (r_column a i)) [0..<?w]),
           facet_levels = map Suc [0..<?w], hist_bins = 25, x_limits = (0, 1)\<rparr>"
  assume h: "r_n_treat robj \<le> 1 \<and> r_ml_m robj = Some a \<and> ncol a = r_n_rep robj
      \<and> length (mdata a) = nrow a * r_n_rep robj \<and> 0 < nrow a \<and> 0 < r_n_rep robj
      \<and> (1 < nrow a \<or> r_n_rep robj = 1)"
  then have r: "rep_propscore_plot_R robj = Inr ?gp"
    by (intro rep_propscore_plot_R_ok(1)) simp_all
  from h have p: "render ?gp = map (\<lambda>k. (Suc k, hist (r_column a k) 0 1 25)) [0..<?w]"
    by (intro rep_propscore_plot_R_ok(2) [of robj]) simp_all
  have "fst (render ?gp ! i) = Suc i \<and> length (snd (render ?gp ! i)) = 25 \<and>
         (\<forall>k<25. snd (render ?gp ! i) ! k =
            (real k / 25, real (Suc k) / 25,
             length (filter (\<lambda>v. real k / 25 \<le> v \<and>
                                  (if k = 24 then v \<le> 1 else v < real (Suc k) / 25))
                            (r_column a i))))"
    if "i < ?w" for i
    using that by (simp only: p) (simp add: hist_length hist_nth_list)
  moreover have "length (render ?gp) = ?w" by (simp only: p) simp
  ultimately show "\<exists>gp. rep_propscore_plot_R robj = Inr gp
      \<and> plot_data gp = concat (map (\<lambda>i. map (Pair (Suc i)) (r_column a i)) [0..<r_n_rep robj])
      \<and> hist_bins gp = 25 \<and> x_limits gp = (0, 1)
      \<and> length (render gp) = r_n_rep robj \<and>
      (\<forall>i<r_n_rep robj. fst (render gp ! i) = Suc i \<and> length (snd (render gp ! i)) = 25 \<and>
         (\<forall>k<25. snd (render gp ! i) ! k =
            (real k / 25, real (Suc k) / 25,
             length (filter (\<lambda>v. real k / 25 \<le> v \<and>
                                  (if k = 24 then v \<le> 1 else v < real (Suc k) / 25))
                            (r_column a i)))))"
    using r by (intro exI [of _ ?gp]) simp
qed

text \<open>
  Claim C9 (\<^verbatim>\<open>rep_propscore_plot\<close>, both variants). For every repetition column the 25
  bucket counts of its histogram sum to the number of predictions of that column that lie
  in \<open>[0, 1]\<close>. Nothing is assumed about the predictions: values outside \<open>[0, 1]\<close>
  raise no error and are counted in no bucket, as in the witness, where one prediction of
  each column is in range. The first conjunct is the Python summarizer, the second the R
  summarizer with the panels drawn by \<open>render\<close>, for the matrices of claim C8.
\<close>

theorem bucket_counts_conserved:
  "(predictions obj = Some dict \<and> dict ''ml_m'' = Some m
      \<and> shape1 m = n_rep obj \<and> shape2 m = 1 \<and> 0 < n_rep obj \<longrightarrow>
    (\<exists>axes. rep_propscore_plot obj = Inr axes \<and> length axes = n_rep obj \<and>
      (\<forall>i<n_rep obj. axes ! i \<noteq> [] \<and>
         (\<forall>hg\<in>set (axes ! i). length hg = 25 \<and>
            sum_list (map (snd \<circ> snd) hg) =
              length (filter (\<lambda>j. 0 \<le> elem m j i 0 \<and> elem m j i 0 \<le> 1) [0..<shape0 m])))))
   \<and> (r_n_treat robj \<le> 1 \<and> r_ml_m robj = Some a \<and> ncol a = r_n_rep robj
      \<and> length (mdata a) = nrow a * r_n_rep robj \<and> 0 < nrow a \<and> 0 < r_n_rep robj
      \<and> (1 < nrow a \<or> r_n_rep robj = 1) \<longrightarrow>
    (\<exists>gp. rep_propscore_plot_R robj = Inr gp \<and> length (render gp) = r_n_rep robj \<and>
      (\<forall>i<r_n_rep robj. fst (render gp ! i) = Suc i \<and> length (snd (render gp ! i)) = 25 \<and>
         sum_list (map (snd \<circ> snd) (snd (render gp ! i))) =
           length (filter (\<lambda>v. 0 \<le> v \<and> v \<le> 1) (r_column a i)))))"
proof (intro conjI impI)
  assume "predictions obj = Some dict \<and> dict ''ml_m'' = Some m
      \<and> shape1 m = n_rep obj \<and> shape2 m = 1 \<and> 0 < n_rep obj"
  then have "\<exists>axes. rep_propscore_plot obj = Inr axes \<and> length axes = n_rep obj \<and>
    (\<forall>i<n_rep obj. set (axes ! i) = {hist (map (\<lambda>j. elem m j i 0) [0..<shape0 m]) 0 1 25})"
    using rep_propscore_plot_axes [of obj dict m] by blast
  then obtain axes where
    a: "rep_propscore_plot obj = Inr axes" "length axes = n_rep obj"
       "\<forall>i<n_rep obj. set (axes ! i) = {hist (map (\<lambda>j. elem m j i 0) [0..<shape0 m]) 0 1 25}"
    by blast
  have "axes ! i \<noteq> []" if "i < n_rep obj" for i
    using a(3) that by fastforce
  moreover have "length hg = 25 \<and> sum_list (map (snd \<circ> snd) hg) =
            length (filter (\<lambda>j. 0 \<le> elem m j i 0 \<and> elem m j i 0 \<le> 1) [0..<shape0 m])"
    if "i < n_rep obj" "hg \<in> set (axes ! i)" for i hg
  proof -
    have "hg = hist (map (\<lambda>j. elem m j i 0) [0..<shape0 m]) 0 1 25"
      using a(3) that by simp
    then show ?thesis
      by (simp only: hist_length hist_counts_total) (simp add: filter_map comp_def)
  qed
  ultimately show "\<exists>axes. rep_propscore_plot obj = Inr axes \<and> length axes = n_rep obj \<and>
      (\<forall>i<n_rep obj. axes ! i \<noteq> [] \<and>
         (\<forall>hg\<in>set (axes ! i). length hg = 25 \<and>
            sum_list (map (snd \<circ> snd) hg) =
              length (filter (\<lambda>j. 0 \<le> elem m j i 0 \<and> elem m j i 0 \<le> 1) [0..<shape0 m])))"
    using a(1,2) by blast
next
  let ?w = "r_n_rep robj"
  let ?gp = "\<lparr>plot_data = concat (map (\<lambda>i. map (Pair (Suc i)) (r_column a i)) [0..<?w]),
           facet_levels = map Suc [0..<?w], hist_bins = 25, x_limits = (0, 1)\<rparr>"
  assume h: "r_n_treat robj \<le> 1 \<and> r_ml_m robj = Some a \<and> ncol a = r_n_rep robj
      \<and> length (mdata a) = nrow a * r_n_rep robj \<and> 0 < nrow a \<and> 0 < r_n_rep robj
      \<and> (1 < nrow a \<or> r_n_rep robj = 1)"
  then have r: "rep_propscore_plot_R robj = Inr ?gp"
    by (intro rep_propscore_plot_R_ok(1)) simp_all
  from h have p: "render ?gp = map (\<lambda>k. (Suc k, hist (r_column a k) 0 1 25)) [0..<?w]"
    by (intro rep_propscore_plot_R_ok(2) [of robj]) simp_all
  have "fst (render ?gp ! i) = Suc i \<and> length (snd (render ?gp ! i)) = 25 \<and>
         sum_list (map (snd \<circ> snd) (snd (render ?gp ! i))) =
           length (filter (\<lambda>v. 0 \<le> v \<and> v \<le> 1) (r_column a i))"
    if "i < ?w" for i
    using that by (simp only: p) (simp add: hist_length hist_counts_total)
  moreover have "length (render ?gp) = ?w" by (simp only: p) simp
  ultimately show "\<exists>gp. rep_propscore_plot_R robj = Inr gp \<and> length (render gp) = r_n_rep robj \<and>
      (\<forall>i<r_n_rep robj. fst (render gp ! i) = Suc i \<and> length (snd (render gp ! i)) = 25 \<and>
         sum_list (map (snd \<circ> snd) (snd (render gp ! i))) =
           length (filter (\<lambda>v. 0 \<le> v \<and> v \<le> 1) (r_column a i)))"
    using r by (intro exI [of _ ?gp]) simp
qed

lemma in_bucket01_fun:
  "in_bucket 0 1 25 k =
     (\<lambda>v. real k / 25 \<le> v \<and> (if k = 24 then v \<le> 1 else v < real (Suc k) / 25))"
  by (rule ext) (rule in_bucket01)

lemma hist_eval:
  "hist x 0 1 25 = map (\<lambda>k. (real k / 25, real (Suc k) / 25,
       length (filter (\<lambda>v. real k / 25 \<le> v \<and> (if k = 24 then v \<le> 1 else v < real (Suc k) / 25)) x)))
     [0..<25]"
  by (simp only: hist_def edge01 in_bucket01_fun)

lemma upt25:
  "[0..<25] = [0, 1, 2, 3, 4, 5, 6, 7, 8, 9, 10, 11, 12, 13, 14, 15, 16, 17, 18, 19, 20,
               21, 22, 23, 24 :: nat]"
  by (simp add: upt_rec)

lemma hist_example:
  "hist [0.02, 0.5, 0.98] 0 1 25 =
     [(0, 1/25, 1), (1/25, 2/25, 0), (2/25, 3/25, 0), (3/25, 4/25, 0), (4/25, 5/25, 0),
      (5/25, 6/25, 0), (6/25, 7/25, 0), (7/25, 8/25, 0), (8/25, 9/25, 0), (9/25, 10/25, 0),
      (10/25, 11/25, 0), (11/25, 12/25, 0), (12/25, 13/25, 1), (13/25, 14/25, 0),
      (14/25, 15/25, 0), (15/25, 16/25, 0), (16/25, 17/25, 0), (17/25, 18/25, 0),
      (18/25, 19/25, 0), (19/25, 20/25, 0), (20/25, 21/25, 0), (21/25, 22/25, 0),
      (22/25, 23/25, 0), (23/25, 24/25, 0), (24/25, 1, 1)]"
  by (simp add: hist_eval upt25)

theorem histogram_per_repetition_witness:
  "map_sum id (map (map (map (snd \<circ> snd))))
       (rep_propscore_plot \<lparr>dml_y = [1, 2, 3], dml_d = [0, 1, 0],
      predictions = Some [''ml_g0'' \<mapsto> of_rows [[1], [1], [1]],
                          ''ml_g1'' \<mapsto> of_rows [[2], [2], [2]],
                          ''ml_m'' \<mapsto> of_rows [[0.02], [0.5], [0.98]]],
      n_rep = 1\<rparr>)
     = Inr [[[1, 0, 0, 0, 0, 0, 0, 0, 0, 0, 0, 0, 1, 0, 0, 0, 0, 0, 0, 0, 0, 0, 0, 0, 1],
             [1, 0, 0, 0, 0, 0, 0, 0, 0, 0, 0, 0, 1, 0, 0, 0, 0, 0, 0, 0, 0, 0, 0, 0, 1]]]
   \<and> map_sum id (\<lambda>gp. map (map_prod id (map (snd \<circ> snd))) (render gp))
       (rep_propscore_plot_R \<lparr>r_n_treat = 1, r_n_obs = 3, r_n_rep = 1,
      r_y = [1, 2, 3], r_d = [0, 1, 0],
      r_ml_g0 = Some \<lparr>nrow = 3, ncol = 1, mdata = [1, 1, 1]\<rparr>,
      r_ml_g1 = Some \<lparr>nrow = 3, ncol = 1, mdata = [2, 2, 2]\<rparr>,
      r_ml_m = Some \<lparr>nrow = 3, ncol = 1, mdata = [0.02, 0.5, 0.98]\<rparr>\<rparr>)
     = Inr [(1, [1, 0, 0, 0, 0, 0, 0, 0, 0, 0, 0, 0, 1, 0, 0, 0, 0, 0, 0, 0, 0, 0, 0, 0, 1])]
   \<and> hist [0.02, 0.5, 0.98] 0 1 25 ! 0 = (0, 0.04, 1)
   \<and> hist [0.02, 0.5, 0.98] 0 1 25 ! 12 = (0.48, 0.52, 1)
   \<and> hist [0.02, 0.5, 0.98] 0 1 25 ! 24 = (0.96, 1, 1)"
proof -
  let ?m = "of_rows [[0.02], [0.5], [0.98]]"
  let ?dict = "[''ml_g0'' \<mapsto> of_rows [[1], [1], [1]],
               ''ml_g1'' \<mapsto> of_rows [[2], [2], [2]],
               ''ml_m'' \<mapsto> ?m]"
  let ?obj = "\<lparr>dml_y = [1, 2, 3], dml_d = [0, 1, 0], predictions = Some ?dict, n_rep = 1\<rparr>"
  let ?a = "\<lparr>nrow = 3, ncol = 1, mdata = [0.02, 0.5, 0.98]\<rparr>"
  let ?robj = "\<lparr>r_n_treat = 1, r_n_obs = 3, r_n_rep = 1,
      r_y = [1, 2, 3], r_d = [0, 1, 0],
      r_ml_g0 = Some \<lparr>nrow = 3, ncol = 1, mdata = [1, 1, 1]\<rparr>,
      r_ml_g1 = Some \<lparr>nrow = 3, ncol = 1, mdata = [2, 2, 2]\<rparr>,
      r_ml_m = Some \<lparr>nrow = 3, ncol = 1, mdata = [0.02, 0.5, 0.98]\<rparr>\<rparr>"
  have ev: "rep_propscore_plot ?obj =
      Inr [[hist [0.02, 0.5, 0.98] 0 1 25, hist [0.02, 0.5, 0.98] 0 1 25]]"
    by (simp add: rep_propscore_plot_def get_def shape_0_def hist_of_column_def column_def
      np_reshape_def of_rows_def Let_def upt_rec)
  have inst: "(\<exists>axes. rep_propscore_plot ?obj = Inr axes \<and> length axes = n_rep ?obj \<and>
      (\<forall>i<n_rep ?obj. axes ! i \<noteq> [] \<and>
         (\<forall>hg\<in>set (axes ! i). length hg = 25 \<and>
            (\<forall>k<25. hg ! k =
               (real k / 25, real (Suc k) / 25,
                length (filter (\<lambda>j. real k / 25 \<le> elem ?m j i 0 \<and>
                                     (if k = 24 then elem ?m j i 0 \<le> 1
                                      else elem ?m j i 0 < real (Suc k) / 25))
                               [0..<shape0 ?m]))))))
   \<and> (\<exists>gp. rep_propscore_plot_R ?robj = Inr gp
      \<and> plot_data gp = concat (map (\<lambda>i. map (Pair (Suc i)) (r_column ?a i)) [0..<r_n_rep ?robj])
      \<and> hist_bins gp = 25 \<and> x_limits gp = (0, 1)
      \<and> length (render gp) = r_n_rep ?robj \<and>
      (\<forall>i<r_n_rep ?robj. fst (render gp ! i) = Suc i \<and> length (snd (render gp ! i)) = 25 \<and>
         (\<forall>k<25. snd (render gp ! i) ! k =
            (real k / 25, real (Suc k) / 25,
             length (filter (\<lambda>v. real k / 25 \<le> v \<and>
                                  (if k = 24 then v \<le> 1 else v < real (Suc k) / 25))
                            (r_column ?a i))))))"
    using histogram_per_repetition [where obj = ?obj and dict = ?dict and m = ?m
        and robj = ?robj and a = ?a]
    by (simp add: of_rows_def)
  then have run: "(\<exists>axes. rep_propscore_plot ?obj = Inr axes)
      \<and> (\<exists>gp. rep_propscore_plot_R ?robj = Inr gp)"
    by blast
  have evR: "rep_propscore_plot_R ?robj =
      Inr \<lparr>plot_data = [(1, 0.02), (1, 0.5), (1, 0.98)], facet_levels = [1],
           hist_bins = 25, x_limits = (0, 1)\<rparr>"
    by (simp add: rep_propscore_plot_R_def data_table_def r_colon1_def Let_def)
  have rd: "render \<lparr>plot_data = [(1, 0.02), (1, 0.5), (1, 0.98)], facet_levels = [1],
           hist_bins = 25, x_limits = (0, 1)\<rparr> = [(1, hist [0.02, 0.5, 0.98] 0 1 25)]"
    by (simp add: render_def)
  from run show ?thesis
    unfolding ev evR map_sum.simps rd hist_example by simp
qed

theorem bucket_counts_conserved_witness:
  "map_sum id (map (map (map (snd \<circ> snd))))
       (rep_propscore_plot \<lparr>dml_y = [1, 2, 3], dml_d = [0, 1, 0],
          predictions = Some [''ml_g0'' \<mapsto> of_rows [[1], [1], [1]],
                              ''ml_g1'' \<mapsto> of_rows [[2], [2], [2]],
                              ''ml_m'' \<mapsto> of_rows [[1.5], [0.5], [- 0.2]]],
          n_rep = 1\<rparr>)
     = Inr [[[0, 0, 0, 0, 0, 0, 0, 0, 0, 0, 0, 0, 1, 0, 0, 0, 0, 0, 0, 0, 0, 0, 0, 0, 0],
             [0, 0, 0, 0, 0, 0, 0, 0, 0, 0, 0, 0, 1, 0, 0, 0, 0, 0, 0, 0, 0, 0, 0, 0, 0]]]
   \<and> map_sum id (\<lambda>gp. map (map_prod id (map (snd \<circ> snd))) (render gp))
       (rep_propscore_plot_R \<lparr>r_n_treat = 1, r_n_obs = 2, r_n_rep = 2,
          r_y = [1, 2], r_d = [0, 1],
          r_ml_g0 = Some \<lparr>nrow = 2, ncol = 2, mdata = [1, 1, 1, 1]\<rparr>,
          r_ml_g1 = Some \<lparr>nrow = 2, ncol = 2, mdata = [2, 2, 2, 2]\<rparr>,
          r_ml_m = Some \<lparr>nrow = 2, ncol = 2, mdata = [1.5, 0.5, - 0.2, 0.02]\<rparr>\<rparr>)
     = Inr [(1, [0, 0, 0, 0, 0, 0, 0, 0, 0, 0, 0, 0, 1, 0, 0, 0, 0, 0, 0, 0, 0, 0, 0, 0, 0]),
            (2, [1, 0, 0, 0, 0, 0, 0, 0, 0, 0, 0, 0, 0, 0, 0, 0, 0, 0, 0, 0, 0, 0, 0, 0, 0])]
   \<and> length (filter (\<lambda>v. 0 \<le> v \<and> v \<le> 1) [1.5, 0.5, - 0.2 :: real]) = 1
   \<and> length (filter (\<lambda>v. 0 \<le> v \<and> v \<le> 1) [- 0.2, 0.02 :: real]) = 1"
proof -
  let ?m = "of_rows [[1.5], [0.5], [- 0.2]]"
  let ?dict = "[''ml_g0'' \<mapsto> of_rows [[1], [1], [1]],
               ''ml_g1'' \<mapsto> of_rows [[2], [2], [2]],
               ''ml_m'' \<mapsto> ?m]"
  let ?obj = "\<lparr>dml_y = [1, 2, 3], dml_d = [0, 1, 0], predictions = Some ?dict, n_rep = 1\<rparr>"
  let ?a = "\<lparr>nrow = 2, ncol = 2, mdata = [1.5, 0.5, - 0.2, 0.02]\<rparr>"
  let ?robj = "\<lparr>r_n_treat = 1, r_n_obs = 2, r_n_rep = 2,
          r_y = [1, 2], r_d = [0, 1],
          r_ml_g0 = Some \<lparr>nrow = 2, ncol = 2, mdata = [1, 1, 1, 1]\<rparr>,
          r_ml_g1 = Some \<lparr>nrow = 2, ncol = 2, mdata = [2, 2, 2, 2]\<rparr>,
          r_ml_m = Some ?a\<rparr>"
  have ev: "rep_propscore_plot ?obj =
      Inr [[hist [1.5, 0.5, - 0.2] 0 1 25, hist [1.5, 0.5, - 0.2] 0 1 25]]"
    by (simp add: rep_propscore_plot_def get_def shape_0_def hist_of_column_def column_def
      np_reshape_def of_rows_def Let_def upt_rec)
  have evR: "rep_propscore_plot_R ?robj =
      Inr \<lparr>plot_data = [(1, 1.5), (1, 0.5), (2, - 0.2), (2, 0.02)], facet_levels = [1, 2],
           hist_bins = 25, x_limits = (0, 1)\<rparr>"
    by (simp add: rep_propscore_plot_R_def data_table_def r_colon1_def r_column_def Let_def
      upt_rec)
  have rd: "render \<lparr>plot_data = [(1, 1.5), (1, 0.5), (2, - 0.2), (2, 0.02)],
           facet_levels = [1, 2], hist_bins = 25, x_limits = (0, 1)\<rparr> =
      [(1, hist [1.5, 0.5] 0 1 25), (2, hist [- 0.2, 0.02] 0 1 25)]"
    by (simp add: render_def)
  have "(\<exists>axes. rep_propscore_plot ?obj = Inr axes \<and> length axes = n_rep ?obj \<and>
      (\<forall>i<n_rep ?obj. axes ! i \<noteq> [] \<and>
         (\<forall>hg\<in>set (axes ! i). length hg = 25 \<and>
            sum_list (map (snd \<circ> snd) hg) =
              length (filter (\<lambda>j. 0 \<le> elem ?m j i 0 \<and> elem ?m j i 0 \<le> 1) [0..<shape0 ?m]))))
   \<and> (\<exists>gp. rep_propscore_plot_R ?robj = Inr gp \<and> length (render gp) = r_n_rep ?robj \<and>
      (\<forall>i<r_n_rep ?robj. fst (render gp ! i) = Suc i \<and> length (snd (render gp ! i)) = 25 \<and>
         sum_list (map (snd \<circ> snd) (snd (render gp ! i))) =
           length (filter (\<lambda>v. 0 \<le> v \<and> v \<le> 1) (r_column ?a i))))"
    using bucket_counts_conserved [where obj = ?obj and dict = ?dict and m = ?m
        and robj = ?robj and a = ?a]
    by (simp add: of_rows_def)
  then have run: "(\<exists>axes. rep_propscore_plot ?obj = Inr axes)
      \<and> (\<exists>gp. rep_propscore_plot_R ?robj = Inr gp)"
    by blast
  have h1: "map (snd \<circ> snd) (hist [1.5, 0.5, - 0.2] 0 1 25) =
      [0, 0, 0, 0, 0, 0, 0, 0, 0, 0, 0, 0, 1, 0, 0, 0, 0, 0, 0, 0, 0, 0, 0, 0, 0]"
    by (simp add: hist_eval upt25)
  have h2: "map (snd \<circ> snd) (hist [1.5, 0.5] 0 1 25) =
      [0, 0, 0, 0, 0, 0, 0, 0, 0, 0, 0, 0, 1, 0, 0, 0, 0, 0, 0, 0, 0, 0, 0, 0, 0]"
    by (simp add: hist_eval upt25)
  have h3: "map (snd \<circ> snd) (hist [- 0.2, 0.02] 0 1 25) =
      [1, 0, 0, 0, 0, 0, 0, 0, 0, 0, 0, 0, 0, 0, 0, 0, 0, 0, 0, 0, 0, 0, 0, 0, 0]"
    by (simp add: hist_eval upt25)
  from run show ?thesis
    unfolding ev evR map_sum.simps rd list.map map_prod_simp id_apply h1 h2 h3 by simp
qed

subsection \<open>More than one treatment variable\<close>

lemma rep_propscore_plot_R_guard:
  "1 < r_n_treat obj \<Longrightarrow> rep_propscore_plot_R obj = Inl (Stop msg_n_treat)"
  by (simp add: rep_propscore_plot_R_def)

lemma length_column_rows:
  "length (concat (map (\<lambda>j. map (f j) [0..<t]) [0..<h])) = h * t"
  by (simp add: length_concat comp_def sum_list_triv)

lemma hist_of_column_multi:
  assumes "1 < shape2 m" "0 < shape0 m"
  shows "hist_of_column (Some m) (shape0 m) i =
    (if i < shape1 m then Inl (ValueError ''cannot reshape array'') else Inl IndexError)"
proof -
  have "shape0 m * shape2 m \<noteq> shape0 m" using assms by simp
  then show ?thesis
    by (simp add: hist_of_column_def column_def np_reshape_def length_column_rows)
qed

lemma mapM_first_error:
  "0 < n \<Longrightarrow> f 0 = Inl e \<Longrightarrow> mapM f [0..<n] = Inl e"
  by (simp add: upt_rec)

text \<open>
  Claim C5. With more than one treatment variable the summarizer fails instead of
  producing histograms. The R summarizer stops with its message about the number of
  treatment variables. The Python summarizer has no such check, but the stored array has
  one entry per treatment variable along its last axis, so that a column \<^verbatim>\<open>m[:,i]\<close> holds
  more than \<open>h\<close> values and \<^verbatim>\<open>np.reshape(m[:,i], h)\<close> raises a \<open>ValueError\<close> for the
  first column (an \<open>IndexError\<close> if the array has no column at all). This needs at
  least one observation: of an array without rows every column is empty and is reshaped.
\<close>

theorem summarizer_multi_treatment:
  "(1 < r_n_treat robj \<longrightarrow> rep_propscore_plot_R robj = Inl (Stop msg_n_treat))
   \<and> (predictions obj = Some dict \<and> dict ''ml_m'' = Some m \<and> 1 < shape2 m \<and> 0 < shape0 m \<longrightarrow>
        rep_propscore_plot obj =
          (if 0 < shape1 m then Inl (ValueError ''cannot reshape array'') else Inl IndexError))"
proof (intro conjI impI)
  assume "1 < r_n_treat robj"
  then show "rep_propscore_plot_R robj = Inl (Stop msg_n_treat)"
    by (rule rep_propscore_plot_R_guard)
next
  assume h: "predictions obj = Some dict \<and> dict ''ml_m'' = Some m \<and> 1 < shape2 m \<and> 0 < shape0 m"
  let ?e = "if 0 < shape1 m then Inl (ValueError ''cannot reshape array'') else Inl IndexError"
  have c0: "hist_of_column (Some m) (shape0 m) 0 = ?e"
    using h by (simp add: hist_of_column_multi)
  show "rep_propscore_plot obj = ?e"
  proof (cases "1 < n_rep obj")
    case True
    have "mapM (\<lambda>i. case hist_of_column (Some m) (shape0 m) i of
                    Inl e \<Rightarrow> Inl e
                  | Inr hg \<Rightarrow> Inr [hg]) [0..<n_rep obj] = ?e"
      using True c0 by (cases "0 < shape1 m") (simp_all add: mapM_first_error)
    then show ?thesis using h True by (simp add: rep_propscore_plot_stored)
  next
    case False
    then show ?thesis using h c0 by (simp add: rep_propscore_plot_stored)
  qed
qed

theorem summarizer_multi_treatment_witness:
  "rep_propscore_plot_R \<lparr>r_n_treat = 2, r_n_obs = 2, r_n_rep = 1, r_y = [1, 2], r_d = [0, 1],
      r_ml_g0 = Some \<lparr>nrow = 2, ncol = 1, mdata = [1, 1]\<rparr>,
      r_ml_g1 = Some \<lparr>nrow = 2, ncol = 1, mdata = [2, 2]\<rparr>,
      r_ml_m = Some \<lparr>nrow = 2, ncol = 1, mdata = [0.5, 0.5]\<rparr>\<rparr> = Inl (Stop msg_n_treat)
   \<and> shape2 (full 3 2 2 0.5) = 2
   \<and> rep_propscore_plot \<lparr>dml_y = [1, 2, 3], dml_d = [0, 1, 0],
      predictions = Some [''ml_l'' \<mapsto> full 3 2 2 1, ''ml_m'' \<mapsto> full 3 2 2 0.5],
      n_rep = 2\<rparr> = Inl (ValueError ''cannot reshape array'')"
  using summarizer_multi_treatment [where robj = "\<lparr>r_n_treat = 2, r_n_obs = 2, r_n_rep = 1,
      r_y = [1, 2], r_d = [0, 1],
      r_ml_g0 = Some \<lparr>nrow = 2, ncol = 1, mdata = [1, 1]\<rparr>,
      r_ml_g1 = Some \<lparr>nrow = 2, ncol = 1, mdata = [2, 2]\<rparr>,
      r_ml_m = Some \<lparr>nrow = 2, ncol = 1, mdata = [0.5, 0.5]\<rparr>\<rparr>"
    and obj = "\<lparr>dml_y = [1, 2, 3], dml_d = [0, 1, 0],
      predictions = Some [''ml_l'' \<mapsto> full 3 2 2 1, ''ml_m'' \<mapsto> full 3 2 2 0.5],
      n_rep = 2\<rparr>"
    and dict = "[''ml_l'' \<mapsto> full 3 2 2 1, ''ml_m'' \<mapsto> full 3 2 2 0.5]"
    and m = "full 3 2 2 0.5"]
  by (simp add: full_def)

subsection \<open>Results per repetition\<close>

lemma blend_forms:
  assumes "isin01_all ds" "length ds = n"
  shows "map (\<lambda>j. if ds ! j = 1 then f1 j else f0 j) [0..<n] =
         map (\<lambda>j. if ds ! j = 0 then f0 j else f1 j) [0..<n]"
proof (rule map_cong [OF refl])
  fix j assume "j \<in> set [0..<n]"
  then have "ds ! j = 0 \<or> ds ! j = 1"
    using assms by (simp add: isin01_all_def list_all_length)
  then show "(if ds ! j = 1 then f1 j else f0 j) = (if ds ! j = 0 then f0 j else f1 j)"
    by auto
qed

lemma mapM_Inr_nth:
  assumes "\<And>x. x \<in> set xs \<Longrightarrow> \<exists>v. f x = Inr v"
  shows "\<exists>vs. mapM f xs = Inr vs \<and> length vs = length xs \<and>
           (\<forall>i<length xs. Inr (vs ! i) = f (xs ! i))"
proof -
  have "\<not> (\<exists>e. mapM f xs = Inl e)"
  proof
    assume "\<exists>e. mapM f xs = Inl e"
    then obtain x e where x: "x \<in> set xs" "f x = Inl e"
      by (auto simp only: mapM_Inl_iff)
    from assms [OF x(1)] x(2) show False by auto
  qed
  then obtain vs where vs: "mapM f xs = Inr vs"
    by (cases "mapM f xs") auto
  then show ?thesis
    using mapM_length [OF vs] mapM_nth [OF vs] by auto
qed

subsection \<open>Bounds on the log-loss\<close>

lemma clamped_ln_bounds:
  fixes p :: real
  defines "c \<equiv> min (1 - 0.025) (max 0.025 p)"
  shows "ln 0.025 \<le> ln c" "ln c \<le> 0" "ln 0.025 \<le> ln (1 - c)" "ln (1 - c) \<le> 0"
proof -
  have c: "0.025 \<le> c" "c \<le> 0.975" by (simp_all add: c_def)
  then have pos: "0 < c" "0 < 1 - c" by simp_all
  show "ln 0.025 \<le> ln c" using c pos by (simp del: ln_le_cancel_iff add: ln_mono)
  show "ln c \<le> 0" using c pos by simp
  show "ln 0.025 \<le> ln (1 - c)" using c pos by (intro ln_mono) simp_all
  show "ln (1 - c) \<le> 0" using c pos by simp
qed

lemma log_loss_term_bounds:
  fixes t p :: real
  assumes "t = 0 \<or> t = 1"
  shows "ln 0.025 \<le> t * ln (min (1 - 0.025) (max 0.025 p))
                     + (1 - t) * ln (1 - min (1 - 0.025) (max 0.025 p))"
    and "t * ln (min (1 - 0.025) (max 0.025 p))
           + (1 - t) * ln (1 - min (1 - 0.025) (max 0.025 p)) \<le> 0"
  using assms clamped_ln_bounds [of p] by auto

lemma mean_bounds:
  fixes f :: "nat \<Rightarrow> real"
  assumes "0 < n" "\<And>j. j < n \<Longrightarrow> a \<le> f j" "\<And>j. j < n \<Longrightarrow> f j \<le> 0"
  shows "0 \<le> - ((\<Sum>j<n. f j) / real n)" "- ((\<Sum>j<n. f j) / real n) \<le> - a"
proof -
  have "(\<Sum>j<n. f j) \<le> (\<Sum>j<n. 0)" by (intro sum_mono) (simp add: assms(3))
  then have up: "(\<Sum>j<n. f j) \<le> 0" by simp
  have "(\<Sum>j<n. a) \<le> (\<Sum>j<n. f j)" by (intro sum_mono) (simp add: assms(2))
  then have lo: "real n * a \<le> (\<Sum>j<n. f j)" by simp
  show "0 \<le> - ((\<Sum>j<n. f j) / real n)"
    using up assms(1) by (simp add: divide_nonpos_pos)
  have "a \<le> (\<Sum>j<n. f j) / real n"
    using lo assms(1) by (simp add: pos_le_divide_eq mult.commute)
  then show "- ((\<Sum>j<n. f j) / real n) \<le> - a" by simp
qed

subsection \<open>The PLR helper\<close>

lemma rmse_ok:
  assumes "length y = length p" "y \<noteq> []"
  shows "rmse y p = Inr (sqrt ((\<Sum>j<length y. (y ! j - p ! j)\<^sup>2) / real (length y)))"
  using assms by (simp add: rmse_def sum_list_map2_nth)

lemma rmse_Inr_D:
  "rmse y p = Inr v \<Longrightarrow> length y = length p \<and> y \<noteq> [] \<and>
     v = sqrt ((\<Sum>j<length y. (y ! j - p ! j)\<^sup>2) / real (length y))"
  by (cases "length y \<noteq> length p \<or> y = []") (auto simp: rmse_def sum_list_map2_nth)

lemma recycle_length: "length (recycle xs n) = n"
  by (simp add: recycle_def)

lemma export_pred_plr_theta:
  "(\<exists>e. export_pred_plr theta ds ml_nuis nuis = Inl e) \<longleftrightarrow>
   (\<exists>e. export_pred_plr theta' ds ml_nuis nuis = Inl e)"
  by (cases ml_nuis)
     (auto simp: export_pred_plr_def r_arith_def Let_def recycle_length split: if_splits)

lemma export_pred_plr_error:
  "export_pred_plr theta ds ml_nuis nuis = Inl e \<Longrightarrow>
   e = Stop ''dims do not match the length of object''"
  by (cases ml_nuis)
     (auto simp: export_pred_plr_def r_arith_def Let_def recycle_length split: if_splits)

lemma pred_acc_plr_theta:
  "pred_acc_plr (obj\<lparr>plr_coef := theta'\<rparr>) nuis = pred_acc_plr obj nuis"
proof -
  let ?ml = "case plr_predictions obj nuis of None \<Rightarrow> Vec [] | Some a \<Rightarrow> Mat a"
  let ?e = "\<lambda>t. export_pred_plr t (plr_d obj) ?ml nuis"
  have "(case ?e theta' of Inl e \<Rightarrow> Inl e | Inr _ \<Rightarrow> rmse (plr_y obj) (rdata ?ml)) =
        (case ?e (plr_coef obj) of Inl e \<Rightarrow> Inl e | Inr _ \<Rightarrow> rmse (plr_y obj) (rdata ?ml))"
  proof (cases "?e theta'")
    case (Inl e)
    then obtain e' where e': "?e (plr_coef obj) = Inl e'"
      using export_pred_plr_theta [of theta' "plr_d obj" ?ml nuis "plr_coef obj"] by blast
    have "e' = e"
      using export_pred_plr_error [OF e'] export_pred_plr_error [OF Inl] by simp
    then show ?thesis using Inl e' by simp
  next
    case (Inr v)
    then have "\<not> (\<exists>e. ?e (plr_coef obj) = Inl e)"
      using export_pred_plr_theta [of theta' "plr_d obj" ?ml nuis "plr_coef obj"] by simp
    then obtain v' where "?e (plr_coef obj) = Inr v'"
      by (cases "?e (plr_coef obj)") auto
    then show ?thesis using Inr by simp
  qed
  then show ?thesis by (simp add: pred_acc_plr_def Let_def)
qed

lemma pred_acc_plr_value:
  assumes "pred_acc_plr obj nuis = Inr v"
  shows "\<exists>a. plr_predictions obj nuis = Some a \<and> length (mdata a) = length (plr_y obj) \<and>
           v = sqrt ((\<Sum>j<length (plr_y obj). (plr_y obj ! j - mdata a ! j)\<^sup>2)
                     / real (length (plr_y obj)))"
proof -
  let ?ml = "case plr_predictions obj nuis of None \<Rightarrow> Vec [] | Some a \<Rightarrow> Mat a"
  from assms have r: "rmse (plr_y obj) (rdata ?ml) = Inr v"
    by (auto simp: pred_acc_plr_def Let_def split: sum.splits)
  from rmse_Inr_D [OF r] have d: "length (plr_y obj) = length (rdata ?ml)" "plr_y obj \<noteq> []"
    "v = sqrt ((\<Sum>j<length (plr_y obj). (plr_y obj ! j - rdata ?ml ! j)\<^sup>2)
                     / real (length (plr_y obj)))"
    by simp_all
  then obtain a where a: "plr_predictions obj nuis = Some a"
    by (cases "plr_predictions obj nuis") auto
  then show ?thesis using d by simp
qed

lemma pred_acc_plr_fitted:
  assumes "plr_predictions obj nuis = Some a"
    and "length (mdata a) = n" and "nrow a * ncol a = n"
    and "length (plr_y obj) = n" and "length (plr_d obj) = n" and "0 < n"
  shows "pred_acc_plr obj nuis =
    Inr (sqrt ((\<Sum>j<n. (plr_y obj ! j - mdata a ! j)\<^sup>2) / real n))"
proof -
  have "\<exists>v. export_pred_plr (plr_coef obj) (plr_d obj) (Mat a) nuis = Inr v"
    using assms(2,3,5,6)
    by (auto simp: export_pred_plr_def r_arith_def Let_def recycle_length)
  moreover have "rmse (plr_y obj) (mdata a) =
      Inr (sqrt ((\<Sum>j<length (plr_y obj). (plr_y obj ! j - mdata a ! j)\<^sup>2)
           / real (length (plr_y obj))))"
    using assms(2,4,6) by (intro rmse_ok) auto
  ultimately show ?thesis
    using assms(1,4) by (auto simp: pred_acc_plr_def Let_def)
qed

text \<open>
  Claim C10 (R \<^verbatim>\<open>pred_acc_plr\<close>). The result does not depend on the fitted coefficient:
  replacing \<^verbatim>\<open>obj$coef\<close> by any other value gives the same result. Whenever a value is
  returned, it is the root-mean-squared error of the outcome against the stored
  predictions of the requested component, and for a fitted object (predictions stored
  under the name, as many of them as there are observations, at least one observation)
  this value is returned. The blend \<^verbatim>\<open>export_pred\<close> is computed and not used.
\<close>

theorem pred_acc_plr_ignores_theta:
  "pred_acc_plr (obj\<lparr>plr_coef := theta'\<rparr>) nuis = pred_acc_plr obj nuis
   \<and> (\<forall>v. pred_acc_plr obj nuis = Inr v \<longrightarrow>
        (\<exists>a. plr_predictions obj nuis = Some a \<and> length (mdata a) = length (plr_y obj) \<and>
           v = sqrt ((\<Sum>j<length (plr_y obj). (plr_y obj ! j - mdata a ! j)\<^sup>2)
                     / real (length (plr_y obj)))))
   \<and> (\<forall>a n. plr_predictions obj nuis = Some a \<and> length (mdata a) = n \<and> nrow a * ncol a = n
          \<and> length (plr_y obj) = n \<and> length (plr_d obj) = n \<and> 0 < n \<longrightarrow>
        pred_acc_plr obj nuis =
          Inr (sqrt ((\<Sum>j<n. (plr_y obj ! j - mdata a ! j)\<^sup>2) / real n)))"
proof (intro conjI allI impI)
  show "pred_acc_plr (obj\<lparr>plr_coef := theta'\<rparr>) nuis = pred_acc_plr obj nuis"
    by (rule pred_acc_plr_theta)
next
  fix v assume "pred_acc_plr obj nuis = Inr v"
  then show "\<exists>a. plr_predictions obj nuis = Some a \<and> length (mdata a) = length (plr_y obj) \<and>
           v = sqrt ((\<Sum>j<length (plr_y obj). (plr_y obj ! j - mdata a ! j)\<^sup>2)
                     / real (length (plr_y obj)))"
    by (rule pred_acc_plr_value)
next
  fix a n
  assume "plr_predictions obj nuis = Some a \<and> length (mdata a) = n \<and> nrow a * ncol a = n
          \<and> length (plr_y obj) = n \<and> length (plr_d obj) = n \<and> 0 < n"
  then show "pred_acc_plr obj nuis =
          Inr (sqrt ((\<Sum>j<n. (plr_y obj ! j - mdata a ! j)\<^sup>2) / real n))"
    by (intro pred_acc_plr_fitted) simp_all
qed

theorem pred_acc_plr_ignores_theta_witness:
  "pred_acc_plr \<lparr>plr_y = [1, 2, 3, 4], plr_d = [0, 1, 0, 1], plr_coef = 7, plr_n_obs = 4,
      plr_predictions = [''ml_l'' \<mapsto> \<lparr>nrow = 4, ncol = 1, mdata = [1, 2, 1, 2]\<rparr>,
                         ''ml_m'' \<mapsto> \<lparr>nrow = 4, ncol = 1, mdata = [0, 1, 0, 1]\<rparr>]\<rparr> ''ml_l''
     = Inr (sqrt 2)
   \<and> pred_acc_plr \<lparr>plr_y = [1, 2, 3, 4], plr_d = [0, 1, 0, 1], plr_coef = 0, plr_n_obs = 4,
      plr_predictions = [''ml_l'' \<mapsto> \<lparr>nrow = 4, ncol = 1, mdata = [1, 2, 1, 2]\<rparr>,
                         ''ml_m'' \<mapsto> \<lparr>nrow = 4, ncol = 1, mdata = [0, 1, 0, 1]\<rparr>]\<rparr> ''ml_l''
     = Inr (sqrt 2)"
proof -
  let ?obj = "\<lparr>plr_y = [1, 2, 3, 4], plr_d = [0, 1, 0, 1], plr_coef = 7, plr_n_obs = 4,
      plr_predictions = [''ml_l'' \<mapsto> \<lparr>nrow = 4, ncol = 1, mdata = [1, 2, 1, 2]\<rparr>,
                         ''ml_m'' \<mapsto> \<lparr>nrow = 4, ncol = 1, mdata = [0, 1, 0, 1]\<rparr>]\<rparr>"
  note t = pred_acc_plr_ignores_theta [of 0 ?obj "''ml_l''"]
  have s: "plr_predictions ?obj ''ml_l'' = Some \<lparr>nrow = 4, ncol = 1, mdata = [1, 2, 1, 2]\<rparr>"
    by simp
  from t have "pred_acc_plr ?obj ''ml_l'' =
      Inr (sqrt ((\<Sum>j<4. (plr_y ?obj ! j - mdata \<lparr>nrow = 4, ncol = 1, mdata = [1, 2, 1, 2]\<rparr> ! j)\<^sup>2) / real 4))"
    using s by (elim conjE allE [where x = "\<lparr>nrow = 4, ncol = 1, mdata = [1, 2, 1, 2]\<rparr>"]
                 allE [where x = "4::nat"]) simp
  then have v: "pred_acc_plr ?obj ''ml_l'' = Inr (sqrt 2)"
    by (simp add: lessThan_nat_numeral lessThan_Suc)
  from t have i: "pred_acc_plr (?obj\<lparr>plr_coef := 0\<rparr>) ''ml_l'' = pred_acc_plr ?obj ''ml_l''"
    by (rule conjunct1)
  from i v show ?thesis by simp
qed

subsection \<open>The R evaluator on well-formed input\<close>

lemma recycle_nth: "k < n \<Longrightarrow> recycle xs n ! k = xs ! (k mod length xs)"
  by (simp add: recycle_def)

lemma recycle_id: "length xs = n \<Longrightarrow> recycle xs n = xs"
  by (rule nth_equalityI) (simp_all add: recycle_length recycle_nth)

lemma r_matrix_id:
  assumes "0 < w" "length xs = n * w"
  shows "r_matrix (Some xs) w = Inr \<lparr>nrow = n, ncol = w, mdata = xs\<rparr>"
proof -
  have "(n * w + w - 1) div w = n"
  proof (rule div_nat_eqI)
    show "w * n \<le> n * w + w - 1" using assms(1) by (simp add: mult.commute)
    show "n * w + w - 1 < w * Suc n" using assms(1) by (simp add: mult.commute)
  qed
  then show ?thesis
    using assms by (simp add: r_matrix_def Let_def recycle_id)
qed

lemma r_arith_vec_mat:
  assumes "length ds = n" "0 < n" "0 < ncol a" "nrow a = n" "length (mdata a) = n * ncol a"
  shows "r_arith f (Vec ds) (Mat a) =
    Inr (Mat \<lparr>nrow = n, ncol = ncol a,
              mdata = map (\<lambda>k. f (ds ! (k mod n)) (mdata a ! k)) [0..<n * ncol a]\<rparr>)"
proof -
  let ?s = "n * ncol a"
  have s: "0 < ?s" "n \<le> ?s" using assms(2,3) by simp_all
  then have mx: "max n ?s = ?s" by simp
  have "map2 f (recycle ds ?s) (recycle (mdata a) ?s) =
        map (\<lambda>k. f (ds ! (k mod n)) (mdata a ! k)) [0..<?s]"
    using assms(1,5)
    by (intro nth_equalityI) (simp_all add: recycle_length recycle_nth)
  moreover have "\<not> (?s = 1 \<and> n \<noteq> 1)" using assms(2,3) by auto
  ultimately show ?thesis
    using assms s mx by (simp add: r_arith_def Let_def)
qed

lemma r_arith_one_minus:
  assumes "length ds = n" "0 < n"
  shows "r_arith (-) (Vec [1]) (Vec ds) = Inr (Vec (map (\<lambda>k. 1 - ds ! k) [0..<n]))"
proof -
  have mx: "max (Suc 0) n = n" using assms(2) by simp
  have "map2 (-) (recycle [1] n) (recycle ds n) = map (\<lambda>k. 1 - ds ! k) [0..<n]"
    using assms(1)
    by (intro nth_equalityI) (simp_all add: recycle_length recycle_nth)
  then show ?thesis using assms mx by (simp add: r_arith_def Let_def)
qed

lemma r_arith_mat_mat:
  assumes "nrow a = nrow b" "ncol a = ncol b" "length (mdata a) = s" "length (mdata b) = s"
  shows "r_arith f (Mat a) (Mat b) =
    Inr (Mat \<lparr>nrow = nrow a, ncol = ncol a,
              mdata = map (\<lambda>k. f (mdata a ! k) (mdata b ! k)) [0..<s]\<rparr>)"
proof -
  have n: "(if s = 0 \<or> s = 0 then 0 else max s s) = s" by simp
  have "map2 f (recycle (mdata a) s) (recycle (mdata b) s) =
        map (\<lambda>k. f (mdata a ! k) (mdata b ! k)) [0..<s]"
    using assms(3,4)
    by (intro nth_equalityI) (simp_all add: recycle_length recycle_nth)
  then show ?thesis using assms by (simp only: r_arith_def Let_def rdata.simps n) simp
qed

lemma export_pred_R_ok:
  assumes "list_all (\<lambda>x. x = 0 \<or> x = 1) ds" "length ds = n" "0 < n" "0 < w"
    and "nrow g0 = n" "ncol g0 = w" "length (mdata g0) = n * w"
    and "nrow g1 = n" "ncol g1 = w" "length (mdata g1) = n * w"
  shows "export_pred_R ds g0 g1 =
    Inr (Mat \<lparr>nrow = n, ncol = w,
              mdata = map (\<lambda>k. if ds ! (k mod n) = 1 then mdata g1 ! k else mdata g0 ! k)
                          [0..<n * w]\<rparr>)"
proof -
  let ?a = "\<lparr>nrow = n, ncol = w,
              mdata = map (\<lambda>k. ds ! (k mod n) * mdata g1 ! k) [0..<n * w]\<rparr>"
  let ?b = "map (\<lambda>k. 1 - ds ! k) [0..<n]"
  let ?c = "\<lparr>nrow = n, ncol = w,
              mdata = map (\<lambda>k. ?b ! (k mod n) * mdata g0 ! k) [0..<n * w]\<rparr>"
  have a: "r_arith (*) (Vec ds) (Mat g1) = Inr (Mat ?a)"
    using assms r_arith_vec_mat [of ds n g1 "(*)"] by simp
  have b: "r_arith (-) (Vec [1]) (Vec ds) = Inr (Vec ?b)"
    using assms by (intro r_arith_one_minus) simp_all
  have c: "r_arith (*) (Vec ?b) (Mat g0) = Inr (Mat ?c)"
    using assms r_arith_vec_mat [of ?b n g0 "(*)"] by simp
  have d: "r_arith (+) (Mat ?a) (Mat ?c) =
      Inr (Mat \<lparr>nrow = n, ncol = w,
                mdata = map (\<lambda>k. mdata ?a ! k + mdata ?c ! k) [0..<n * w]\<rparr>)"
    using r_arith_mat_mat [of ?a ?c "n * w" "(+)"] by simp
  have "map (\<lambda>k. mdata ?a ! k + mdata ?c ! k) [0..<n * w] =
        map (\<lambda>k. if ds ! (k mod n) = 1 then mdata g1 ! k else mdata g0 ! k) [0..<n * w]"
  proof (rule map_cong [OF refl])
    fix k assume "k \<in> set [0..<n * w]"
    then have k: "k < n * w" by simp
    have "k mod n < n" using assms(3) by simp
    then have "ds ! (k mod n) = 0 \<or> ds ! (k mod n) = 1"
      using assms(1,2) by (simp add: list_all_length)
    then show "mdata ?a ! k + mdata ?c ! k =
        (if ds ! (k mod n) = 1 then mdata g1 ! k else mdata g0 ! k)"
      using k \<open>k mod n < n\<close> by auto
  qed
  then show ?thesis by (simp add: export_pred_R_def a b c d)
qed

lemma r_column_nth:
  assumes "length (mdata a) = nrow a * ncol a" "i < ncol a"
  shows "r_column a i = map (\<lambda>j. mdata a ! (i * nrow a + j)) [0..<nrow a]"
proof -
  have "i * nrow a + nrow a \<le> nrow a * ncol a"
  proof -
    have "Suc i * nrow a \<le> ncol a * nrow a" using assms(2) by (intro mult_le_mono1) simp
    then show ?thesis by (simp add: mult.commute)
  qed
  then have "i * nrow a \<le> length (mdata a)" "i * nrow a + nrow a \<le> length (mdata a)"
    unfolding assms(1) by linarith+
  then show ?thesis
    by (intro nth_equalityI) (simp_all add: r_column_def)
qed

lemma rmse_column:
  assumes "length y = n" "0 < n"
  shows "rmse y (map f [0..<n]) = Inr (sqrt ((\<Sum>j<n. (y ! j - f j)\<^sup>2) / real n))"
proof -
  have "rmse y (map f [0..<n]) =
      Inr (sqrt ((\<Sum>j<length y. (y ! j - map f [0..<n] ! j)\<^sup>2) / real (length y)))"
    using assms by (intro rmse_ok) auto
  moreover have "(\<Sum>j<n. (y ! j - map f [0..<n] ! j)\<^sup>2) = (\<Sum>j<n. (y ! j - f j)\<^sup>2)"
    by (intro sum.cong) simp_all
  ultimately show ?thesis using assms(1) by simp
qed

lemma pred_acc_irm_R_regression:
  assumes "r_n_treat obj \<le> 1" "list_all (\<lambda>x. x = 0 \<or> x = 1) (r_d obj)"
    and "length (r_y obj) = n" "length (r_d obj) = n" "0 < n" "0 < r_n_rep obj"
    and "length (mdata a0) = n * r_n_rep obj"
    and "length (mdata a1) = n * r_n_rep obj"
    and "r_ml_g0 obj = Some a0" "r_ml_g1 obj = Some a1" "r_ml_m obj = Some am"
  shows "pred_acc_irm_R eps obj False =
    Inr (map (\<lambda>i. sqrt ((\<Sum>j<n. (r_y obj ! j -
                  (if r_d obj ! j = 1 then mdata a1 ! (i * n + j)
                   else mdata a0 ! (i * n + j)))\<^sup>2) / real n)) [0..<r_n_rep obj])"
proof -
  let ?w = "r_n_rep obj"
  let ?g0 = "\<lparr>nrow = n, ncol = ?w, mdata = mdata a0\<rparr>"
  let ?g1 = "\<lparr>nrow = n, ncol = ?w, mdata = mdata a1\<rparr>"
  let ?e = "\<lparr>nrow = n, ncol = ?w,
      mdata = map (\<lambda>k. if r_d obj ! (k mod n) = 1 then mdata a1 ! k
                        else mdata a0 ! k) [0..<n * ?w]\<rparr>"
  have m: "r_matrix (Some (mdata a0)) ?w = Inr ?g0"
    "r_matrix (Some (mdata a1)) ?w = Inr ?g1"
    using assms by (simp_all add: r_matrix_id)
  obtain m where mm: "r_matrix (Some (mdata am)) ?w = Inr m"
    using r_matrix_pos [OF assms(6)] by blast
  have e: "export_pred_R (r_d obj) ?g0 ?g1 = Inr (Mat ?e)"
    using export_pred_R_ok [of "r_d obj" n ?w ?g0 ?g1] assms by simp
  have col: "rmse (r_y obj) (r_column ?e i) =
      Inr (sqrt ((\<Sum>j<n. (r_y obj ! j -
                  (if r_d obj ! j = 1 then mdata a1 ! (i * n + j)
                   else mdata a0 ! (i * n + j)))\<^sup>2) / real n))"
    if "i \<in> set [0..<?w]" for i
  proof -
    have i: "i < ?w" using that by simp
    have "r_column ?e i = map (\<lambda>j. mdata ?e ! (i * nrow ?e + j)) [0..<nrow ?e]"
      using i by (intro r_column_nth) simp_all
    also have "\<dots> = map (\<lambda>j. if r_d obj ! j = 1 then mdata a1 ! (i * n + j)
                   else mdata a0 ! (i * n + j)) [0..<n]"
    proof -
      have "i * n + j < n * ?w" if "j < n" for j
      proof -
        have "Suc i * n \<le> ?w * n" using i by (intro mult_le_mono1) simp
        then show ?thesis using that by (simp add: mult.commute)
      qed
      then show ?thesis by (auto intro!: map_cong [OF refl])
    qed
    finally show ?thesis using assms(3,5) by (simp only: rmse_column)
  qed
  have "mapM (\<lambda>j. rmse (r_y obj) (r_column ?e j)) [0..<?w] =
      Inr (map (\<lambda>i. sqrt ((\<Sum>j<n. (r_y obj ! j -
                  (if r_d obj ! j = 1 then mdata a1 ! (i * n + j)
                   else mdata a0 ! (i * n + j)))\<^sup>2) / real n)) [0..<?w])"
    by (rule mapM_Inr) (rule col)
  then show ?thesis
    using assms(1,2,6,9,10,11)
    by (simp add: pred_acc_irm_R_def Let_def m mm e r_apply2_def list_all_iff)
qed

lemma logloss_column:
  assumes "length t = n" "0 < n"
  shows "logloss eps t (map (\<lambda>p. 1 - p) (map f [0..<n])) (map f [0..<n]) =
    Inr (- ((\<Sum>j<n. t ! j * ln (min (1 - eps) (max eps (f j)))
                   + (1 - t ! j) * ln (min (1 - eps) (max eps (1 - f j)))) / real n))"
proof -
  let ?g = "\<lambda>j. t ! j * ln (min (1 - eps) (max eps (f j)))
                   + (1 - t ! j) * ln (min (1 - eps) (max eps (1 - f j)))"
  have "map (\<lambda>(t, q0, q1). t * ln (clip q1 eps (1 - eps)) + (1 - t) * ln (clip q0 eps (1 - eps)))
            (zip t (zip (map (\<lambda>p. 1 - p) (map f [0..<n])) (map f [0..<n]))) =
        map ?g [0..<n]"
    using assms(1) by (intro nth_equalityI) (simp_all add: clip_def)
  then have "sum_list (map (\<lambda>(t, q0, q1). t * ln (clip q1 eps (1 - eps))
                                       + (1 - t) * ln (clip q0 eps (1 - eps)))
            (zip t (zip (map (\<lambda>p. 1 - p) (map f [0..<n])) (map f [0..<n])))) =
        (\<Sum>j<n. ?g j)"
    by (simp add: sum_list_sum_nth atLeast0LessThan)
  moreover have "t \<noteq> []" using assms by auto
  ultimately show ?thesis using assms by (simp add: logloss_def)
qed

lemma pred_acc_irm_R_propensity:
  assumes "r_n_treat obj \<le> 1" "list_all (\<lambda>x. x = 0 \<or> x = 1) (r_d obj)"
    and "0 < r_n_rep obj"
    and "length (mdata am) = n * r_n_rep obj"
    and "r_ml_g0 obj = Some a0" "r_ml_g1 obj = Some a1" "r_ml_m obj = Some am"
  shows "pred_acc_irm_R eps obj True =
    mapM (\<lambda>i. logloss eps (r_d obj)
                 (map (\<lambda>p. 1 - p) (map (\<lambda>j. mdata am ! (i * n + j)) [0..<n]))
                 (map (\<lambda>j. mdata am ! (i * n + j)) [0..<n])) [0..<r_n_rep obj]"
proof -
  let ?w = "r_n_rep obj"
  let ?m = "\<lparr>nrow = n, ncol = ?w, mdata = mdata am\<rparr>"
  obtain g0 g1 where g: "r_matrix (Some (mdata a0)) ?w = Inr g0"
    "r_matrix (Some (mdata a1)) ?w = Inr g1"
    using r_matrix_pos [OF assms(3)] by blast
  have m: "r_matrix (Some (mdata am)) ?w = Inr ?m"
    using assms by (simp add: r_matrix_id)
  have col: "r_column ?m i = map (\<lambda>j. mdata am ! (i * n + j)) [0..<n]"
    if "i \<in> set [0..<?w]" for i
    using that assms(4) r_column_nth [of ?m i] by simp
  have "mapM (\<lambda>j. logloss eps (r_d obj) (map (\<lambda>p. 1 - p) (r_column ?m j)) (r_column ?m j))
          [0..<?w] =
        mapM (\<lambda>i. logloss eps (r_d obj)
                 (map (\<lambda>p. 1 - p) (map (\<lambda>j. mdata am ! (i * n + j)) [0..<n]))
                 (map (\<lambda>j. mdata am ! (i * n + j)) [0..<n])) [0..<?w]"
    by (rule mapM_cong) (simp only: col)
  then show ?thesis
    using assms(1,2,5,6,7) by (simp add: pred_acc_irm_R_def Let_def g m list_all_iff)
qed

lemma clamped_ln_bounds_eps:
  fixes p eps :: real
  assumes "0 < eps" "eps \<le> 1 / 2"
  shows "ln eps \<le> ln (min (1 - eps) (max eps p))" "ln (min (1 - eps) (max eps p)) \<le> 0"
proof -
  let ?c = "min (1 - eps) (max eps p)"
  have c: "eps \<le> ?c" "?c \<le> 1 - eps" using assms by simp_all
  then have pos: "0 < ?c" "?c \<le> 1" using assms by linarith+
  show "ln eps \<le> ln ?c" using c(1) assms(1) by (intro ln_mono) simp_all
  show "ln ?c \<le> 0" using pos by simp
qed

lemma logloss_term_bounds:
  fixes t p eps :: real
  assumes "t = 0 \<or> t = 1" "0 < eps" "eps \<le> 1 / 2"
  shows "ln eps \<le> t * ln (min (1 - eps) (max eps p))
                  + (1 - t) * ln (min (1 - eps) (max eps (1 - p)))"
    and "t * ln (min (1 - eps) (max eps p))
           + (1 - t) * ln (min (1 - eps) (max eps (1 - p))) \<le> 0"
  using assms(1) clamped_ln_bounds_eps [OF assms(2,3), of p]
    clamped_ln_bounds_eps [OF assms(2,3), of "1 - p"] by auto

subsection \<open>The claims about the accuracy of the evaluator\<close>

text \<open>
  Claim C1 (\<^verbatim>\<open>pred_acc_irm\<close> with the flag \<^verbatim>\<open>prop\<close> false, both variants). For an
  outcome vector and a binary treatment vector of the same length \<open>n > 0\<close> and
  prediction matrices \<open>g0\<close>, \<open>g1\<close> with \<open>n\<close> rows and one column per repetition,
  the evaluator returns, for each repetition \<open>i\<close>, the square root of the mean of
  \<open>(y[j] - blended[j])\<^sup>2\<close>, where \<open>blended[j]\<close> is the entry of \<open>g1\<close> in row
  \<open>j\<close> and column \<open>i\<close> if \<open>d[j] = 1\<close> and that of \<open>g0\<close> otherwise. The first
  conjunct is the Python helper, the second the R helper, whose matrices are stored column
  by column. A prediction matrix is a stored array of a model with one treatment
  variable: in Python an array of shape \<open>(n, n_rep, 1)\<close> under its key in
  \<^verbatim>\<open>predictions\<close>, in R the slice \<^verbatim>\<open>[,,1]\<close> of the stored array (the R helper builds
  all three matrices before it looks at the flag, so \<open>m\<close> is stored as well). The
  witness is the example of the specification, with result \<open>sqrt 2\<close>.
\<close>

theorem regression_mode_rmse:
  "(isin01_all (dml_d obj) \<and> length (dml_y obj) = n \<and> length (dml_d obj) = n \<and> 0 < n
      \<and> predictions obj = Some dict \<and> dict ''ml_g0'' = Some g0 \<and> dict ''ml_g1'' = Some g1
      \<and> shape0 g0 = n \<and> shape1 g0 = n_rep obj \<and> shape2 g0 = 1
      \<and> shape0 g1 = n \<and> shape1 g1 = n_rep obj \<and> shape2 g1 = 1
    \<longrightarrow> pred_acc_irm obj False =
          Inr (map (\<lambda>i. sqrt ((\<Sum>j<n. (dml_y obj ! j -
                  (if dml_d obj ! j = 1 then elem g1 j i 0
                   else elem g0 j i 0))\<^sup>2) / real n)) [0..<n_rep obj]))
   \<and> (r_n_treat robj \<le> 1 \<and> list_all (\<lambda>x. x = 0 \<or> x = 1) (r_d robj)
      \<and> length (r_y robj) = k \<and> length (r_d robj) = k \<and> 0 < k \<and> 0 < r_n_rep robj
      \<and> r_ml_g0 robj = Some a0 \<and> r_ml_g1 robj = Some a1 \<and> r_ml_m robj = Some am
      \<and> length (mdata a0) = k * r_n_rep robj
      \<and> length (mdata a1) = k * r_n_rep robj
    \<longrightarrow> pred_acc_irm_R eps robj False =
          Inr (map (\<lambda>i. sqrt ((\<Sum>j<k. (r_y robj ! j -
                  (if r_d robj ! j = 1 then mdata a1 ! (i * k + j)
                   else mdata a0 ! (i * k + j)))\<^sup>2) / real k))
               [0..<r_n_rep robj]))"
proof (intro conjI impI)
  assume a: "isin01_all (dml_d obj) \<and> length (dml_y obj) = n \<and> length (dml_d obj) = n \<and> 0 < n
      \<and> predictions obj = Some dict \<and> dict ''ml_g0'' = Some g0 \<and> dict ''ml_g1'' = Some g1
      \<and> shape0 g0 = n \<and> shape1 g0 = n_rep obj \<and> shape2 g0 = 1
      \<and> shape0 g1 = n \<and> shape1 g1 = n_rep obj \<and> shape2 g1 = 1"
  have "pred_acc_irm obj False =
    mapM (\<lambda>i. mean_squared_error (dml_y obj)
                 (map (\<lambda>j. if dml_d obj ! j = 1 then elem g1 j i 0
                            else elem g0 j i 0) [0..<n])) [0..<n_rep obj]"
    using a pred_acc_irm_regression [of obj n dict g0 g1] by blast
  also have "\<dots> = Inr (map (\<lambda>i. sqrt ((\<Sum>j<n. (dml_y obj ! j -
                  (if dml_d obj ! j = 1 then elem g1 j i 0
                   else elem g0 j i 0))\<^sup>2) / real n)) [0..<n_rep obj])"
    using a by (intro mapM_Inr mean_squared_error_blend) simp_all
  finally show "pred_acc_irm obj False =
          Inr (map (\<lambda>i. sqrt ((\<Sum>j<n. (dml_y obj ! j -
                  (if dml_d obj ! j = 1 then elem g1 j i 0
                   else elem g0 j i 0))\<^sup>2) / real n)) [0..<n_rep obj])" .
next
  assume "r_n_treat robj \<le> 1 \<and> list_all (\<lambda>x. x = 0 \<or> x = 1) (r_d robj)
      \<and> length (r_y robj) = k \<and> length (r_d robj) = k \<and> 0 < k \<and> 0 < r_n_rep robj
      \<and> r_ml_g0 robj = Some a0 \<and> r_ml_g1 robj = Some a1 \<and> r_ml_m robj = Some am
      \<and> length (mdata a0) = k * r_n_rep robj
      \<and> length (mdata a1) = k * r_n_rep robj"
  then show "pred_acc_irm_R eps robj False =
          Inr (map (\<lambda>i. sqrt ((\<Sum>j<k. (r_y robj ! j -
                  (if r_d robj ! j = 1 then mdata a1 ! (i * k + j)
                   else mdata a0 ! (i * k + j)))\<^sup>2) / real k))
               [0..<r_n_rep robj])"
    using pred_acc_irm_R_regression [of robj k a0 a1 am eps] by blast
qed

theorem regression_mode_rmse_witness:
  "isin01_all [0, 1, 0, 1]
   \<and> pred_acc_irm \<lparr>dml_y = [1, 2, 3, 4], dml_d = [0, 1, 0, 1],
      predictions = Some [''ml_g0'' \<mapsto> of_rows [[1], [1], [1], [1]],
                          ''ml_g1'' \<mapsto> of_rows [[2], [2], [2], [2]],
                          ''ml_m'' \<mapsto> of_rows [[0.5], [0.5], [0.5], [0.5]]],
      n_rep = 1\<rparr> False = Inr [sqrt 2]
   \<and> pred_acc_irm_R 0.025 \<lparr>r_n_treat = 1, r_n_obs = 4, r_n_rep = 1,
      r_y = [1, 2, 3, 4], r_d = [0, 1, 0, 1],
      r_ml_g0 = Some \<lparr>nrow = 4, ncol = 1, mdata = [1, 1, 1, 1]\<rparr>,
      r_ml_g1 = Some \<lparr>nrow = 4, ncol = 1, mdata = [2, 2, 2, 2]\<rparr>,
      r_ml_m = Some \<lparr>nrow = 4, ncol = 1, mdata = [0.5, 0.5, 0.5, 0.5]\<rparr>\<rparr> False = Inr [sqrt 2]"
  using regression_mode_rmse [where obj =
     "\<lparr>dml_y = [1, 2, 3, 4], dml_d = [0, 1, 0, 1],
      predictions = Some [''ml_g0'' \<mapsto> of_rows [[1], [1], [1], [1]],
                          ''ml_g1'' \<mapsto> of_rows [[2], [2], [2], [2]],
                          ''ml_m'' \<mapsto> of_rows [[0.5], [0.5], [0.5], [0.5]]],
      n_rep = 1\<rparr>" and n = 4
     and dict = "[''ml_g0'' \<mapsto> of_rows [[1], [1], [1], [1]],
                  ''ml_g1'' \<mapsto> of_rows [[2], [2], [2], [2]],
                  ''ml_m'' \<mapsto> of_rows [[0.5], [0.5], [0.5], [0.5]]]"
     and ?g0.0 = "of_rows [[1], [1], [1], [1]]" and ?g1.0 = "of_rows [[2], [2], [2], [2]]"
     and robj = "\<lparr>r_n_treat = 1, r_n_obs = 4, r_n_rep = 1,
      r_y = [1, 2, 3, 4], r_d = [0, 1, 0, 1],
      r_ml_g0 = Some \<lparr>nrow = 4, ncol = 1, mdata = [1, 1, 1, 1]\<rparr>,
      r_ml_g1 = Some \<lparr>nrow = 4, ncol = 1, mdata = [2, 2, 2, 2]\<rparr>,
      r_ml_m = Some \<lparr>nrow = 4, ncol = 1, mdata = [0.5, 0.5, 0.5, 0.5]\<rparr>\<rparr>" and k = 4
     and ?a0.0 = "\<lparr>nrow = 4, ncol = 1, mdata = [1, 1, 1, 1]\<rparr>"
     and ?a1.0 = "\<lparr>nrow = 4, ncol = 1, mdata = [2, 2, 2, 2]\<rparr>"
     and am = "\<lparr>nrow = 4, ncol = 1, mdata = [0.5, 0.5, 0.5, 0.5]\<rparr>"
     and eps = "0.025"]
  by (simp add: isin01_all_def of_rows_def lessThan_nat_numeral lessThan_Suc)

lemma blend_arith:
  fixes ds :: "real list"
  assumes "list_all (\<lambda>x. x = 0 \<or> x = 1) ds" "length ds = n"
  shows "map (\<lambda>j. if ds ! j = 1 then f1 j else f0 j) [0..<n] =
         map (\<lambda>j. ds ! j * f1 j + (1 - ds ! j) * f0 j) [0..<n]"
proof (rule map_cong [OF refl])
  fix j assume "j \<in> set [0..<n]"
  then have "ds ! j = 0 \<or> ds ! j = 1"
    using assms by (simp add: list_all_length)
  then show "(if ds ! j = 1 then f1 j else f0 j) = ds ! j * f1 j + (1 - ds ! j) * f0 j"
    by auto
qed

lemma pred_acc_irm_R_regression_mapM:
  assumes "r_n_treat obj \<le> 1" "list_all (\<lambda>x. x = 0 \<or> x = 1) (r_d obj)"
    and "length (r_y obj) = n" "length (r_d obj) = n" "0 < n" "0 < r_n_rep obj"
    and "length (mdata a0) = n * r_n_rep obj"
    and "length (mdata a1) = n * r_n_rep obj"
    and "r_ml_g0 obj = Some a0" "r_ml_g1 obj = Some a1" "r_ml_m obj = Some am"
  shows "pred_acc_irm_R eps obj False =
    mapM (\<lambda>i. rmse (r_y obj)
                 (map (\<lambda>j. r_d obj ! j * mdata a1 ! (i * n + j)
                            + (1 - r_d obj ! j) * mdata a0 ! (i * n + j)) [0..<n]))
         [0..<r_n_rep obj]"
proof -
  have "mapM (\<lambda>i. rmse (r_y obj)
                 (map (\<lambda>j. r_d obj ! j * mdata a1 ! (i * n + j)
                            + (1 - r_d obj ! j) * mdata a0 ! (i * n + j)) [0..<n]))
         [0..<r_n_rep obj] =
        mapM (\<lambda>i. rmse (r_y obj)
                 (map (\<lambda>j. if r_d obj ! j = 1 then mdata a1 ! (i * n + j)
                            else mdata a0 ! (i * n + j)) [0..<n]))
         [0..<r_n_rep obj]"
    using assms(2,4) by (simp only: blend_arith)
  also have "\<dots> = Inr (map (\<lambda>i. sqrt ((\<Sum>j<n. (r_y obj ! j -
                  (if r_d obj ! j = 1 then mdata a1 ! (i * n + j)
                   else mdata a0 ! (i * n + j)))\<^sup>2) / real n)) [0..<r_n_rep obj])"
    using assms(3,5) by (intro mapM_Inr rmse_column)
  also have "\<dots> = pred_acc_irm_R eps obj False"
    using assms pred_acc_irm_R_regression [of obj n a0 a1 am eps] by simp
  finally show ?thesis by simp
qed

text \<open>
  Claim C6 (\<^verbatim>\<open>pred_acc_irm\<close>, both variants). For a valid input (a binary treatment,
  \<open>n > 0\<close> observations, stored prediction matrices of a model with one treatment
  variable, with \<open>n\<close> rows and one column per repetition) the evaluator returns exactly
  as many values as there are repetitions, and
  the \<open>i\<close>-th value is the metric computed from column \<open>i\<close> of the prediction
  matrices alone: the log-loss of column \<open>i\<close> of \<open>m\<close> in propensity mode, the
  root-mean-squared error of the blend of the columns \<open>i\<close> of \<open>g0\<close> and \<open>g1\<close>
  in regression mode. The first conjunct is the Python helper, the second the R helper.
\<close>

theorem one_result_per_repetition:
  "(isin01_all (dml_d obj) \<and> length (dml_y obj) = n \<and> length (dml_d obj) = n \<and> 0 < n
      \<and> predictions obj = Some dict \<and> dict ''ml_g0'' = Some g0 \<and> dict ''ml_g1'' = Some g1
      \<and> dict ''ml_m'' = Some m
      \<and> shape0 g0 = n \<and> shape1 g0 = n_rep obj \<and> shape2 g0 = 1
      \<and> shape0 g1 = n \<and> shape1 g1 = n_rep obj \<and> shape2 g1 = 1
      \<and> shape0 m = n \<and> shape1 m = n_rep obj \<and> shape2 m = 1
    \<longrightarrow> (\<exists>vs. pred_acc_irm obj prop = Inr vs \<and> length vs = n_rep obj \<and>
          (\<forall>i<n_rep obj. Inr (vs ! i) =
             (if prop
              then log_loss (dml_d obj) (map (\<lambda>j. [elem m j i 0]) [0..<n]) 0.025
              else mean_squared_error (dml_y obj)
                     (map (\<lambda>j. if dml_d obj ! j = 0 then elem g0 j i 0
                                else elem g1 j i 0) [0..<n])))))
   \<and> (r_n_treat robj \<le> 1 \<and> list_all (\<lambda>x. x = 0 \<or> x = 1) (r_d robj)
      \<and> length (r_y robj) = k \<and> length (r_d robj) = k \<and> 0 < k \<and> 0 < r_n_rep robj
      \<and> r_ml_g0 robj = Some a0 \<and> r_ml_g1 robj = Some a1 \<and> r_ml_m robj = Some am
      \<and> length (mdata a0) = k * r_n_rep robj
      \<and> length (mdata a1) = k * r_n_rep robj
      \<and> length (mdata am) = k * r_n_rep robj
    \<longrightarrow> (\<exists>vs. pred_acc_irm_R eps robj prop = Inr vs \<and> length vs = r_n_rep robj \<and>
          (\<forall>i<r_n_rep robj. Inr (vs ! i) =
             (if prop
              then logloss eps (r_d robj)
                     (map (\<lambda>p. 1 - p) (map (\<lambda>j. mdata am ! (i * k + j)) [0..<k]))
                     (map (\<lambda>j. mdata am ! (i * k + j)) [0..<k])
              else rmse (r_y robj)
                     (map (\<lambda>j. r_d robj ! j * mdata a1 ! (i * k + j)
                                + (1 - r_d robj ! j) * mdata a0 ! (i * k + j))
                          [0..<k])))))"
proof (intro conjI impI)
  assume a: "isin01_all (dml_d obj) \<and> length (dml_y obj) = n \<and> length (dml_d obj) = n \<and> 0 < n
      \<and> predictions obj = Some dict \<and> dict ''ml_g0'' = Some g0 \<and> dict ''ml_g1'' = Some g1
      \<and> dict ''ml_m'' = Some m
      \<and> shape0 g0 = n \<and> shape1 g0 = n_rep obj \<and> shape2 g0 = 1
      \<and> shape0 g1 = n \<and> shape1 g1 = n_rep obj \<and> shape2 g1 = 1
      \<and> shape0 m = n \<and> shape1 m = n_rep obj \<and> shape2 m = 1"
  let ?f = "\<lambda>i. if prop
              then log_loss (dml_d obj) (map (\<lambda>j. [elem m j i 0]) [0..<n]) 0.025
              else mean_squared_error (dml_y obj)
                     (map (\<lambda>j. if dml_d obj ! j = 0 then elem g0 j i 0
                                else elem g1 j i 0) [0..<n])"
  have eq: "pred_acc_irm obj prop = mapM ?f [0..<n_rep obj]"
  proof (cases "prop")
    case True
    have "pred_acc_irm obj True =
      mapM (\<lambda>i. log_loss (dml_d obj) (map (\<lambda>j. [elem m j i 0]) [0..<n]) 0.025)
           [0..<n_rep obj]"
      using a pred_acc_irm_propensity [of obj dict g0 m n] by blast
    then show ?thesis using True by simp
  next
    case False
    have "pred_acc_irm obj False =
      mapM (\<lambda>i. mean_squared_error (dml_y obj)
                 (map (\<lambda>j. if dml_d obj ! j = 1 then elem g1 j i 0
                            else elem g0 j i 0) [0..<n])) [0..<n_rep obj]"
      using a pred_acc_irm_regression [of obj n dict g0 g1] by blast
    also have "\<dots> = mapM (\<lambda>i. mean_squared_error (dml_y obj)
                 (map (\<lambda>j. if dml_d obj ! j = 0 then elem g0 j i 0
                            else elem g1 j i 0) [0..<n])) [0..<n_rep obj]"
      using a by (simp only: blend_forms)
    finally show ?thesis using False by simp
  qed
  have "\<exists>v. ?f i = Inr v" for i
    using a by (simp add: log_loss_column mean_squared_error_blend)
  then have "\<exists>vs. mapM ?f [0..<n_rep obj] = Inr vs \<and> length vs = length [0..<n_rep obj] \<and>
           (\<forall>i<length [0..<n_rep obj]. Inr (vs ! i) = ?f ([0..<n_rep obj] ! i))"
    by (intro mapM_Inr_nth) simp
  then show "\<exists>vs. pred_acc_irm obj prop = Inr vs \<and> length vs = n_rep obj \<and>
          (\<forall>i<n_rep obj. Inr (vs ! i) = ?f i)"
    unfolding eq by (auto cong: if_cong)
next
  assume a: "r_n_treat robj \<le> 1 \<and> list_all (\<lambda>x. x = 0 \<or> x = 1) (r_d robj)
      \<and> length (r_y robj) = k \<and> length (r_d robj) = k \<and> 0 < k \<and> 0 < r_n_rep robj
      \<and> r_ml_g0 robj = Some a0 \<and> r_ml_g1 robj = Some a1 \<and> r_ml_m robj = Some am
      \<and> length (mdata a0) = k * r_n_rep robj
      \<and> length (mdata a1) = k * r_n_rep robj
      \<and> length (mdata am) = k * r_n_rep robj"
  let ?f = "\<lambda>i. if prop
              then logloss eps (r_d robj)
                     (map (\<lambda>p. 1 - p) (map (\<lambda>j. mdata am ! (i * k + j)) [0..<k]))
                     (map (\<lambda>j. mdata am ! (i * k + j)) [0..<k])
              else rmse (r_y robj)
                     (map (\<lambda>j. r_d robj ! j * mdata a1 ! (i * k + j)
                                + (1 - r_d robj ! j) * mdata a0 ! (i * k + j))
                          [0..<k])"
  have eq: "pred_acc_irm_R eps robj prop = mapM ?f [0..<r_n_rep robj]"
  proof (cases "prop")
    case True
    have "pred_acc_irm_R eps robj True =
      mapM (\<lambda>i. logloss eps (r_d robj)
                 (map (\<lambda>p. 1 - p) (map (\<lambda>j. mdata am ! (i * k + j)) [0..<k]))
                 (map (\<lambda>j. mdata am ! (i * k + j)) [0..<k])) [0..<r_n_rep robj]"
      using a pred_acc_irm_R_propensity [where obj = robj and n = k and am = am and ?a0.0 = a0
          and ?a1.0 = a1 and eps = eps] by blast
    then show ?thesis using True by simp
  next
    case False
    have "pred_acc_irm_R eps robj False =
      mapM (\<lambda>i. rmse (r_y robj)
                 (map (\<lambda>j. r_d robj ! j * mdata a1 ! (i * k + j)
                            + (1 - r_d robj ! j) * mdata a0 ! (i * k + j)) [0..<k]))
         [0..<r_n_rep robj]"
      using a pred_acc_irm_R_regression_mapM [of robj k a0 a1 am eps] by blast
    then show ?thesis using False by simp
  qed
  have "\<exists>v. ?f i = Inr v" for i
  proof (cases "prop")
    case True
    have "length (r_d robj) = k" "0 < k" using a by simp_all
    from logloss_column [OF this, of eps "\<lambda>j. mdata am ! (i * k + j)"]
    show ?thesis using True by (simp only: if_True) blast
  next
    case False
    then show ?thesis using a by (simp add: rmse_column)
  qed
  then have "\<exists>vs. mapM ?f [0..<r_n_rep robj] = Inr vs \<and> length vs = length [0..<r_n_rep robj] \<and>
           (\<forall>i<length [0..<r_n_rep robj]. Inr (vs ! i) = ?f ([0..<r_n_rep robj] ! i))"
    by (intro mapM_Inr_nth) simp
  then show "\<exists>vs. pred_acc_irm_R eps robj prop = Inr vs \<and> length vs = r_n_rep robj \<and>
          (\<forall>i<r_n_rep robj. Inr (vs ! i) = ?f i)"
    unfolding eq by (auto cong: if_cong)
qed

theorem one_result_per_repetition_witness:
  "isin01_all [0, 1]
   \<and> pred_acc_irm \<lparr>dml_y = [1, 2], dml_d = [0, 1], predictions = Some [''ml_g0'' \<mapsto> of_rows [[1, 0], [0, 0]],
          ''ml_g1'' \<mapsto> of_rows [[0, 0], [2, 1]],
          ''ml_m'' \<mapsto> of_rows [[0.1, 0.5], [0.9, 0.5]]],
        n_rep = 2\<rparr> False = Inr [0, 1]
   \<and> pred_acc_irm_R 0.025 \<lparr>r_n_treat = 1, r_n_obs = 2, r_n_rep = 2,
        r_y = [1, 2], r_d = [0, 1],
        r_ml_g0 = Some \<lparr>nrow = 2, ncol = 2, mdata = [1, 0, 0, 0]\<rparr>,
        r_ml_g1 = Some \<lparr>nrow = 2, ncol = 2, mdata = [0, 2, 0, 1]\<rparr>,
        r_ml_m = Some \<lparr>nrow = 2, ncol = 2, mdata = [0.1, 0.9, 0.5, 0.5]\<rparr>\<rparr> False = Inr [0, 1]
   \<and> mean_squared_error [1, 2] [1, 2] = Inr 0
   \<and> mean_squared_error [1, 2] [0, 1] = Inr 1
   \<and> rmse [1, 2] [1, 2] = Inr 0
   \<and> rmse [1, 2] [0, 1] = Inr 1"
proof -
  let ?obj = "\<lparr>dml_y = [1, 2], dml_d = [0, 1], predictions = Some [''ml_g0'' \<mapsto> of_rows [[1, 0], [0, 0]],
          ''ml_g1'' \<mapsto> of_rows [[0, 0], [2, 1]],
          ''ml_m'' \<mapsto> of_rows [[0.1, 0.5], [0.9, 0.5]]],
        n_rep = 2\<rparr>"
  let ?robj = "\<lparr>r_n_treat = 1, r_n_obs = 2, r_n_rep = 2,
        r_y = [1, 2], r_d = [0, 1],
        r_ml_g0 = Some \<lparr>nrow = 2, ncol = 2, mdata = [1, 0, 0, 0]\<rparr>,
        r_ml_g1 = Some \<lparr>nrow = 2, ncol = 2, mdata = [0, 2, 0, 1]\<rparr>,
        r_ml_m = Some \<lparr>nrow = 2, ncol = 2, mdata = [0.1, 0.9, 0.5, 0.5]\<rparr>\<rparr>"
  have b: "isin01_all [0, 1]" by (simp add: isin01_all_def)
  have m0: "mean_squared_error [1, 2] [1, 2] = Inr 0"
    and m1: "mean_squared_error [1, 2] [0, 1] = Inr 1"
    and r0: "rmse [1, 2] [1, 2] = Inr 0"
    and r1: "rmse [1, 2] [0, 1] = Inr 1"
    by (simp_all add: mean_squared_error_def rmse_def)
  have ev: "pred_acc_irm ?obj False = Inr [0, 1]"
    by (simp add: pred_acc_irm_def get_def shape_0_def isin01_all_def export_pred_array_def
      pick_pred_def getitem_def getitem2_def setitem_scalar_def mean_squared_error_def
      of_rows_def Let_def upt_rec)
  have rev: "pred_acc_irm_R 0.025 ?robj False = Inr [0, 1]"
    by (simp add: pred_acc_irm_R_def r_matrix_def export_pred_R_def r_arith_def recycle_def
      r_apply2_def r_column_def rmse_def Let_def upt_rec mod_Suc)
  note t = one_result_per_repetition [where obj = ?obj and n = 2
      and dict = "[''ml_g0'' \<mapsto> of_rows [[1, 0], [0, 0]],
          ''ml_g1'' \<mapsto> of_rows [[0, 0], [2, 1]],
          ''ml_m'' \<mapsto> of_rows [[0.1, 0.5], [0.9, 0.5]]]"
      and ?g0.0 = "of_rows [[1, 0], [0, 0]]" and ?g1.0 = "of_rows [[0, 0], [2, 1]]"
      and m = "of_rows [[0.1, 0.5], [0.9, 0.5]]"
      and robj = ?robj and k = 2
      and ?a0.0 = "\<lparr>nrow = 2, ncol = 2, mdata = [1, 0, 0, 0]\<rparr>"
      and ?a1.0 = "\<lparr>nrow = 2, ncol = 2, mdata = [0, 2, 0, 1]\<rparr>"
      and am = "\<lparr>nrow = 2, ncol = 2, mdata = [0.1, 0.9, 0.5, 0.5]\<rparr>"
      and eps = "0.025", of False]
  from t have "\<exists>vs. pred_acc_irm ?obj False = Inr vs \<and> length vs = n_rep ?obj"
    by (simp add: isin01_all_def of_rows_def) blast
  moreover from t have "\<exists>vs. pred_acc_irm_R 0.025 ?robj False = Inr vs \<and> length vs = r_n_rep ?robj"
    by simp blast
  ultimately show ?thesis using b ev rev m0 m1 r0 r1 by blast
qed

text \<open>
  Claim C7 (\<^verbatim>\<open>pred_acc_irm\<close> with the flag \<^verbatim>\<open>prop\<close> true, both variants). For a binary
  treatment vector of length \<open>n > 0\<close> and any stored prediction matrix \<open>m\<close> of a
  model with one treatment variable, with \<open>n\<close> rows and one column per repetition, the
  evaluator returns a log-loss for each
  repetition, and each log-loss is non-negative and at most \<open>- ln eps\<close>: over the reals
  every value is finite, and the upper bound is what the clamping adds. For the Python
  helper \<open>eps\<close> is 0.025; for the R helper it is the default of the package, taken
  between 0 and one half. The witness attains the bound.
\<close>

theorem log_loss_finite_nonneg:
  "(isin01_all (dml_d obj) \<and> length (dml_d obj) = n \<and> 0 < n
      \<and> predictions obj = Some dict \<and> dict ''ml_g0'' = Some g0 \<and> dict ''ml_m'' = Some m
      \<and> shape0 m = n \<and> shape1 m = n_rep obj \<and> shape2 m = 1
    \<longrightarrow> (\<exists>vs. pred_acc_irm obj True = Inr vs \<and> length vs = n_rep obj \<and>
           (\<forall>v\<in>set vs. 0 \<le> v \<and> v \<le> - ln 0.025)))
   \<and> (0 < eps \<and> eps \<le> 1 / 2
      \<and> r_n_treat robj \<le> 1 \<and> list_all (\<lambda>x. x = 0 \<or> x = 1) (r_d robj)
      \<and> length (r_d robj) = k \<and> 0 < k \<and> 0 < r_n_rep robj
      \<and> r_ml_g0 robj = Some a0 \<and> r_ml_g1 robj = Some a1 \<and> r_ml_m robj = Some am
      \<and> length (mdata am) = k * r_n_rep robj
    \<longrightarrow> (\<exists>vs. pred_acc_irm_R eps robj True = Inr vs \<and> length vs = r_n_rep robj \<and>
           (\<forall>v\<in>set vs. 0 \<le> v \<and> v \<le> - ln eps)))"
proof (intro conjI impI)
  assume a: "isin01_all (dml_d obj) \<and> length (dml_d obj) = n \<and> 0 < n
      \<and> predictions obj = Some dict \<and> dict ''ml_g0'' = Some g0 \<and> dict ''ml_m'' = Some m
      \<and> shape0 m = n \<and> shape1 m = n_rep obj \<and> shape2 m = 1"
  let ?t = "\<lambda>i j. dml_d obj ! j * ln (min (1 - 0.025) (max 0.025 (elem m j i 0)))
            + (1 - dml_d obj ! j)
              * ln (1 - min (1 - 0.025) (max 0.025 (elem m j i 0)))"
  have "pred_acc_irm obj True =
    mapM (\<lambda>i. log_loss (dml_d obj) (map (\<lambda>j. [elem m j i 0]) [0..<n]) 0.025)
         [0..<n_rep obj]"
    using a pred_acc_irm_propensity [of obj dict g0 m n] by blast
  also have "\<dots> = Inr (map (\<lambda>i. - ((\<Sum>j<n. ?t i j) / real n)) [0..<n_rep obj])"
    using a by (intro mapM_Inr log_loss_column) simp_all
  finally have eq: "pred_acc_irm obj True =
      Inr (map (\<lambda>i. - ((\<Sum>j<n. ?t i j) / real n)) [0..<n_rep obj])" .
  have n: "0 < n" using a by simp
  have bin: "dml_d obj ! j = 0 \<or> dml_d obj ! j = 1" if "j < n" for j
    using a that by (simp add: isin01_all_def list_all_length)
  have "0 \<le> - ((\<Sum>j<n. ?t i j) / real n) \<and> - ((\<Sum>j<n. ?t i j) / real n) \<le> - ln 0.025" for i
  proof
    show "0 \<le> - ((\<Sum>j<n. ?t i j) / real n)"
      using n by (rule mean_bounds(1)) (use bin log_loss_term_bounds in blast)+
    show "- ((\<Sum>j<n. ?t i j) / real n) \<le> - ln 0.025"
      using n by (rule mean_bounds(2)) (use bin log_loss_term_bounds in blast)+
  qed
  then show "\<exists>vs. pred_acc_irm obj True = Inr vs \<and> length vs = n_rep obj \<and>
           (\<forall>v\<in>set vs. 0 \<le> v \<and> v \<le> - ln 0.025)"
    using eq by auto
next
  assume a: "0 < eps \<and> eps \<le> 1 / 2
      \<and> r_n_treat robj \<le> 1 \<and> list_all (\<lambda>x. x = 0 \<or> x = 1) (r_d robj)
      \<and> length (r_d robj) = k \<and> 0 < k \<and> 0 < r_n_rep robj
      \<and> r_ml_g0 robj = Some a0 \<and> r_ml_g1 robj = Some a1 \<and> r_ml_m robj = Some am
      \<and> length (mdata am) = k * r_n_rep robj"
  let ?t = "\<lambda>i j. r_d robj ! j * ln (min (1 - eps) (max eps (mdata am ! (i * k + j))))
            + (1 - r_d robj ! j)
              * ln (min (1 - eps) (max eps (1 - mdata am ! (i * k + j))))"
  have "pred_acc_irm_R eps robj True =
      mapM (\<lambda>i. logloss eps (r_d robj)
                 (map (\<lambda>p. 1 - p) (map (\<lambda>j. mdata am ! (i * k + j)) [0..<k]))
                 (map (\<lambda>j. mdata am ! (i * k + j)) [0..<k])) [0..<r_n_rep robj]"
    using a pred_acc_irm_R_propensity [where obj = robj and n = k and am = am and ?a0.0 = a0
          and ?a1.0 = a1 and eps = eps] by blast
  also have "\<dots> = Inr (map (\<lambda>i. - ((\<Sum>j<k. ?t i j) / real k)) [0..<r_n_rep robj])"
    using a by (intro mapM_Inr logloss_column) simp_all
  finally have eq: "pred_acc_irm_R eps robj True =
      Inr (map (\<lambda>i. - ((\<Sum>j<k. ?t i j) / real k)) [0..<r_n_rep robj])" .
  have k: "0 < k" and e: "0 < eps" "eps \<le> 1 / 2" using a by simp_all
  have bin: "r_d robj ! j = 0 \<or> r_d robj ! j = 1" if "j < k" for j
    using a that by (simp add: list_all_length)
  have "0 \<le> - ((\<Sum>j<k. ?t i j) / real k) \<and> - ((\<Sum>j<k. ?t i j) / real k) \<le> - ln eps" for i
  proof
    show "0 \<le> - ((\<Sum>j<k. ?t i j) / real k)"
      using k by (rule mean_bounds(1)) (use bin logloss_term_bounds [OF _ e] in blast)+
    show "- ((\<Sum>j<k. ?t i j) / real k) \<le> - ln eps"
      using k by (rule mean_bounds(2)) (use bin logloss_term_bounds [OF _ e] in blast)+
  qed
  then show "\<exists>vs. pred_acc_irm_R eps robj True = Inr vs \<and> length vs = r_n_rep robj \<and>
           (\<forall>v\<in>set vs. 0 \<le> v \<and> v \<le> - ln eps)"
    using eq by auto
qed

theorem log_loss_finite_nonneg_witness:
  "isin01_all [0, 1]
   \<and> pred_acc_irm \<lparr>dml_y = [3, 5], dml_d = [0, 1], predictions = Some [''ml_g0'' \<mapsto> of_rows [[3], [5]],
          ''ml_g1'' \<mapsto> of_rows [[3], [5]],
          ''ml_m'' \<mapsto> of_rows [[1], [0]]],
        n_rep = 1\<rparr> True = Inr [- ln 0.025]
   \<and> pred_acc_irm_R 0.025 \<lparr>r_n_treat = 1, r_n_obs = 2, r_n_rep = 1,
        r_y = [3, 5], r_d = [0, 1],
        r_ml_g0 = Some \<lparr>nrow = 2, ncol = 1, mdata = [3, 5]\<rparr>,
        r_ml_g1 = Some \<lparr>nrow = 2, ncol = 1, mdata = [3, 5]\<rparr>,
        r_ml_m = Some \<lparr>nrow = 2, ncol = 1, mdata = [1, 0]\<rparr>\<rparr> True = Inr [- ln 0.025]
   \<and> 0 \<le> - ln (0.025 :: real)"
proof -
  let ?obj = "\<lparr>dml_y = [3, 5], dml_d = [0, 1], predictions = Some [''ml_g0'' \<mapsto> of_rows [[3], [5]],
          ''ml_g1'' \<mapsto> of_rows [[3], [5]],
          ''ml_m'' \<mapsto> of_rows [[1], [0]]],
        n_rep = 1\<rparr>"
  let ?robj = "\<lparr>r_n_treat = 1, r_n_obs = 2, r_n_rep = 1,
        r_y = [3, 5], r_d = [0, 1],
        r_ml_g0 = Some \<lparr>nrow = 2, ncol = 1, mdata = [3, 5]\<rparr>,
        r_ml_g1 = Some \<lparr>nrow = 2, ncol = 1, mdata = [3, 5]\<rparr>,
        r_ml_m = Some \<lparr>nrow = 2, ncol = 1, mdata = [1, 0]\<rparr>\<rparr>"
  have b: "isin01_all [0, 1]" by (simp add: isin01_all_def)
  have ev: "pred_acc_irm ?obj True = Inr [- ln 0.025]"
    by (simp add: pred_acc_irm_def get_def shape_0_def isin01_all_def column_def log_loss_def
        clip_def of_rows_def Let_def upt_rec)
  have rev: "pred_acc_irm_R 0.025 ?robj True = Inr [- ln 0.025]"
    by (simp add: pred_acc_irm_R_def r_matrix_def recycle_def r_column_def logloss_def
        clip_def Let_def upt_rec)
  note t = log_loss_finite_nonneg [where obj = ?obj and n = 2
      and dict = "[''ml_g0'' \<mapsto> of_rows [[3], [5]],
          ''ml_g1'' \<mapsto> of_rows [[3], [5]],
          ''ml_m'' \<mapsto> of_rows [[1], [0]]]"
      and ?g0.0 = "of_rows [[3], [5]]" and m = "of_rows [[1], [0]]"
      and eps = "0.025" and robj = ?robj and k = 2
      and ?a0.0 = "\<lparr>nrow = 2, ncol = 1, mdata = [3, 5]\<rparr>"
      and ?a1.0 = "\<lparr>nrow = 2, ncol = 1, mdata = [3, 5]\<rparr>"
      and am = "\<lparr>nrow = 2, ncol = 1, mdata = [1, 0]\<rparr>"]
  from t have "\<exists>vs. pred_acc_irm ?obj True = Inr vs \<and> length vs = n_rep ?obj \<and>
           (\<forall>v\<in>set vs. 0 \<le> v \<and> v \<le> - ln 0.025)"
    by (simp add: isin01_all_def of_rows_def)
  then have "0 \<le> - ln (0.025 :: real)" unfolding ev by simp
  moreover from t have "\<exists>vs. pred_acc_irm_R 0.025 ?robj True = Inr vs \<and> length vs = r_n_rep ?robj \<and>
           (\<forall>v\<in>set vs. 0 \<le> v \<and> v \<le> - ln 0.025)"
    by simp
  ultimately show ?thesis using b ev rev by blast
qed

text \<open>
  Claim C2, as amended (\<^verbatim>\<open>pred_acc_irm\<close> with the flag \<^verbatim>\<open>prop\<close> true). For a binary
  treatment vector of length \<open>n > 0\<close> and a prediction matrix \<open>m\<close> with \<open>n\<close> rows
  and one column per repetition, the evaluator returns, for each repetition, minus the
  mean of \<open>d[j] * ln p + (1 - d[j]) * ln (1 - p)\<close> over the column, with the two
  probabilities clamped to \<open>[eps, 1 - eps]\<close>. The Python helper passes \<open>eps = 0.025\<close>.
  The R helper passes no epsilon, so its clamp is the default of the package, the
  parameter \<open>eps\<close>. As for C1 the matrices are the stored arrays of a model with one
  treatment variable; both helpers read \<open>g0\<close> before they look at the flag, so it is
  stored as well. The witness is the example of the specification, where no
  probability is clamped: the result is \<open>- mean (ln 0.9, ln 0.9)\<close>, between 0.105 and
  0.106, in both variants. The counterexample takes \<open>1e-15\<close>, the default that the
  package documents: for the predictions 0.99 and 0.01 against the treatments 0 and 1 the
  Python helper returns \<open>- ln 0.025\<close> and the R helper \<open>- ln 0.01\<close>.
\<close>

theorem propensity_mode_log_loss:
  "(isin01_all (dml_d obj) \<and> length (dml_d obj) = n \<and> 0 < n
      \<and> predictions obj = Some dict \<and> dict ''ml_g0'' = Some g0 \<and> dict ''ml_m'' = Some m
      \<and> shape0 m = n \<and> shape1 m = n_rep obj \<and> shape2 m = 1
    \<longrightarrow> pred_acc_irm obj True =
          Inr (map (\<lambda>i. - ((\<Sum>j<n.
                  dml_d obj ! j * ln (min (1 - 0.025) (max 0.025 (elem m j i 0)))
                  + (1 - dml_d obj ! j)
                    * ln (1 - min (1 - 0.025) (max 0.025 (elem m j i 0))))
                 / real n)) [0..<n_rep obj]))
   \<and> (r_n_treat robj \<le> 1 \<and> list_all (\<lambda>x. x = 0 \<or> x = 1) (r_d robj)
      \<and> length (r_d robj) = k \<and> 0 < k \<and> 0 < r_n_rep robj
      \<and> r_ml_g0 robj = Some a0 \<and> r_ml_g1 robj = Some a1 \<and> r_ml_m robj = Some am
      \<and> length (mdata am) = k * r_n_rep robj
    \<longrightarrow> pred_acc_irm_R eps robj True =
          Inr (map (\<lambda>i. - ((\<Sum>j<k.
                  r_d robj ! j * ln (min (1 - eps) (max eps (mdata am ! (i * k + j))))
                  + (1 - r_d robj ! j)
                    * ln (min (1 - eps) (max eps (1 - mdata am ! (i * k + j)))))
                 / real k)) [0..<r_n_rep robj]))"
proof (intro conjI impI)
  assume a: "isin01_all (dml_d obj) \<and> length (dml_d obj) = n \<and> 0 < n
      \<and> predictions obj = Some dict \<and> dict ''ml_g0'' = Some g0 \<and> dict ''ml_m'' = Some m
      \<and> shape0 m = n \<and> shape1 m = n_rep obj \<and> shape2 m = 1"
  have "pred_acc_irm obj True =
    mapM (\<lambda>i. log_loss (dml_d obj) (map (\<lambda>j. [elem m j i 0]) [0..<n]) 0.025)
         [0..<n_rep obj]"
    using a pred_acc_irm_propensity [of obj dict g0 m n] by blast
  also have "\<dots> = Inr (map (\<lambda>i. - ((\<Sum>j<n.
            dml_d obj ! j * ln (min (1 - 0.025) (max 0.025 (elem m j i 0)))
            + (1 - dml_d obj ! j)
              * ln (1 - min (1 - 0.025) (max 0.025 (elem m j i 0)))) / real n))
         [0..<n_rep obj])"
    using a by (intro mapM_Inr log_loss_column) simp_all
  finally show "pred_acc_irm obj True =
          Inr (map (\<lambda>i. - ((\<Sum>j<n.
                  dml_d obj ! j * ln (min (1 - 0.025) (max 0.025 (elem m j i 0)))
                  + (1 - dml_d obj ! j)
                    * ln (1 - min (1 - 0.025) (max 0.025 (elem m j i 0))))
                 / real n)) [0..<n_rep obj])" .
next
  assume a: "r_n_treat robj \<le> 1 \<and> list_all (\<lambda>x. x = 0 \<or> x = 1) (r_d robj)
      \<and> length (r_d robj) = k \<and> 0 < k \<and> 0 < r_n_rep robj
      \<and> r_ml_g0 robj = Some a0 \<and> r_ml_g1 robj = Some a1 \<and> r_ml_m robj = Some am
      \<and> length (mdata am) = k * r_n_rep robj"
  have "pred_acc_irm_R eps robj True =
      mapM (\<lambda>i. logloss eps (r_d robj)
                 (map (\<lambda>p. 1 - p) (map (\<lambda>j. mdata am ! (i * k + j)) [0..<k]))
                 (map (\<lambda>j. mdata am ! (i * k + j)) [0..<k])) [0..<r_n_rep robj]"
    using a pred_acc_irm_R_propensity [where obj = robj and n = k and am = am and ?a0.0 = a0
          and ?a1.0 = a1 and eps = eps] by blast
  also have "\<dots> = Inr (map (\<lambda>i. - ((\<Sum>j<k.
                  r_d robj ! j * ln (min (1 - eps) (max eps (mdata am ! (i * k + j))))
                  + (1 - r_d robj ! j)
                    * ln (min (1 - eps) (max eps (1 - mdata am ! (i * k + j)))))
                 / real k)) [0..<r_n_rep robj])"
    using a by (intro mapM_Inr logloss_column) simp_all
  finally show "pred_acc_irm_R eps robj True =
          Inr (map (\<lambda>i. - ((\<Sum>j<k.
                  r_d robj ! j * ln (min (1 - eps) (max eps (mdata am ! (i * k + j))))
                  + (1 - r_d robj ! j)
                    * ln (min (1 - eps) (max eps (1 - mdata am ! (i * k + j)))))
                 / real k)) [0..<r_n_rep robj])" .
qed

theorem propensity_mode_log_loss_witness:
  "isin01_all [0, 1]
   \<and> pred_acc_irm \<lparr>dml_y = [3, 5], dml_d = [0, 1], predictions = Some [''ml_g0'' \<mapsto> of_rows [[3], [5]],
          ''ml_g1'' \<mapsto> of_rows [[3], [5]],
          ''ml_m'' \<mapsto> of_rows [[0.1], [0.9]]],
        n_rep = 1\<rparr> True = Inr [- ((ln 0.9 + ln 0.9) / 2)]
   \<and> pred_acc_irm_R (1 / 10 ^ 15) \<lparr>r_n_treat = 1, r_n_obs = 2, r_n_rep = 1,
      r_y = [3, 5], r_d = [0, 1],
      r_ml_g0 = Some \<lparr>nrow = 2, ncol = 1, mdata = [3, 5]\<rparr>,
      r_ml_g1 = Some \<lparr>nrow = 2, ncol = 1, mdata = [3, 5]\<rparr>,
      r_ml_m = Some \<lparr>nrow = 2, ncol = 1, mdata = [0.1, 0.9]\<rparr>\<rparr> True
     = Inr [- ((ln 0.9 + ln 0.9) / 2)]
   \<and> 0.105 < - ((ln 0.9 + ln 0.9) / 2 :: real) \<and> - ((ln 0.9 + ln 0.9) / 2 :: real) < 0.106"
  using propensity_mode_log_loss [where obj =
     "\<lparr>dml_y = [3, 5], dml_d = [0, 1],
      predictions = Some [''ml_g0'' \<mapsto> of_rows [[3], [5]],
          ''ml_g1'' \<mapsto> of_rows [[3], [5]],
          ''ml_m'' \<mapsto> of_rows [[0.1], [0.9]]],
        n_rep = 1\<rparr>" and n = 2
     and dict = "[''ml_g0'' \<mapsto> of_rows [[3], [5]],
          ''ml_g1'' \<mapsto> of_rows [[3], [5]],
          ''ml_m'' \<mapsto> of_rows [[0.1], [0.9]]]"
     and ?g0.0 = "of_rows [[3], [5]]" and m = "of_rows [[0.1], [0.9]]"
     and robj = "\<lparr>r_n_treat = 1, r_n_obs = 2, r_n_rep = 1,
      r_y = [3, 5], r_d = [0, 1],
      r_ml_g0 = Some \<lparr>nrow = 2, ncol = 1, mdata = [3, 5]\<rparr>,
      r_ml_g1 = Some \<lparr>nrow = 2, ncol = 1, mdata = [3, 5]\<rparr>,
      r_ml_m = Some \<lparr>nrow = 2, ncol = 1, mdata = [0.1, 0.9]\<rparr>\<rparr>" and k = 2
     and ?a0.0 = "\<lparr>nrow = 2, ncol = 1, mdata = [3, 5]\<rparr>"
     and ?a1.0 = "\<lparr>nrow = 2, ncol = 1, mdata = [3, 5]\<rparr>"
     and am = "\<lparr>nrow = 2, ncol = 1, mdata = [0.1, 0.9]\<rparr>"
     and eps = "1 / 10 ^ 15"]
    ln_09_lower ln_09_upper
  by (simp add: isin01_all_def of_rows_def lessThan_nat_numeral lessThan_Suc)

theorem propensity_mode_log_loss_counterexample:
  "pred_acc_irm \<lparr>dml_y = [3, 5], dml_d = [0, 1], predictions = Some [''ml_g0'' \<mapsto> of_rows [[3], [5]],
          ''ml_g1'' \<mapsto> of_rows [[3], [5]],
          ''ml_m'' \<mapsto> of_rows [[0.99], [0.01]]],
        n_rep = 1\<rparr> True = Inr [- ln 0.025]
   \<and> pred_acc_irm_R (1 / 10 ^ 15) \<lparr>r_n_treat = 1, r_n_obs = 2, r_n_rep = 1,
      r_y = [3, 5], r_d = [0, 1],
      r_ml_g0 = Some \<lparr>nrow = 2, ncol = 1, mdata = [3, 5]\<rparr>,
      r_ml_g1 = Some \<lparr>nrow = 2, ncol = 1, mdata = [3, 5]\<rparr>,
      r_ml_m = Some \<lparr>nrow = 2, ncol = 1, mdata = [0.99, 0.01]\<rparr>\<rparr> True = Inr [- ln 0.01]
   \<and> - ln (0.01 :: real) \<noteq> - ln 0.025"
proof -
  have "pred_acc_irm \<lparr>dml_y = [3, 5], dml_d = [0, 1], predictions = Some [''ml_g0'' \<mapsto> of_rows [[3], [5]],
          ''ml_g1'' \<mapsto> of_rows [[3], [5]],
          ''ml_m'' \<mapsto> of_rows [[0.99], [0.01]]],
        n_rep = 1\<rparr> True = Inr [- ln 0.025]"
    by (simp add: pred_acc_irm_def get_def shape_0_def isin01_all_def column_def log_loss_def
        clip_def of_rows_def Let_def upt_rec)
  moreover have "pred_acc_irm_R (1 / 10 ^ 15) \<lparr>r_n_treat = 1, r_n_obs = 2, r_n_rep = 1,
      r_y = [3, 5], r_d = [0, 1],
      r_ml_g0 = Some \<lparr>nrow = 2, ncol = 1, mdata = [3, 5]\<rparr>,
      r_ml_g1 = Some \<lparr>nrow = 2, ncol = 1, mdata = [3, 5]\<rparr>,
      r_ml_m = Some \<lparr>nrow = 2, ncol = 1, mdata = [0.99, 0.01]\<rparr>\<rparr> True = Inr [- ln 0.01]"
    by (simp add: pred_acc_irm_R_def r_matrix_def recycle_def r_column_def logloss_def
        clip_def Let_def upt_rec)
  moreover have "- ln (0.01 :: real) \<noteq> - ln 0.025"
    by simp
  ultimately show ?thesis by blast
qed

end
